theory Spec2Isabelle
  imports Complex_Main "HOL-Library.Sublist" "HOL-Library.Multiset" "HOL-Library.Word"
begin

section \<open>Capabilities: layers and extensions (vkpp/instance.cc)\<close>

text \<open>
  \<open>vkpp::Extension\<close> and \<open>vkpp::Layer\<close> are declared in headers that are not part of
  the sources at hand. Their fields follow the Vulkan property structures they wrap.
\<close>

record Extension =
  name :: string
  spec_version :: nat

record Layer =
  name :: string
  spec_version :: nat
  implementation_version :: nat
  description :: string

text \<open>
  Modelled from the spec: the converting constructors \<open>Extension(const char*)\<close> and
  \<open>Layer(const char*)\<close> used by the braced lists at instance.cc:65-66 are missing; a
  capability built from a bare name carries that name and no version.
\<close>

definition Extension_of_name :: "string \<Rightarrow> Extension" where
  "Extension_of_name n = \<lparr>Extension.name = n, spec_version = 0\<rparr>"

definition Layer_of_name :: "string \<Rightarrow> Layer" where
  "Layer_of_name n =
     \<lparr>Layer.name = n, spec_version = 0, implementation_version = 0, description = ''''\<rparr>"

text \<open>
  Modelled from the spec: \<open>operator==\<close> of \<open>Extension\<close> and of \<open>Layer\<close> is missing; the
  data model says that equality of capabilities is name-based.
\<close>

definition Extension_eq :: "Extension \<Rightarrow> Extension \<Rightarrow> bool" where
  "Extension_eq a b = (Extension.name a = Extension.name b)"

definition Layer_eq :: "Layer \<Rightarrow> Layer \<Rightarrow> bool" where
  "Layer_eq a b = (Layer.name a = Layer.name b)"

subsection \<open>Instance::find with an explicit available list (instance.cc:108-142)\<close>

text \<open>
  The inner loop runs over the whole available list and only ever raises the flag; the
  outer loop appends to the result vector.
\<close>

fun extension_found_loop :: "Extension \<Rightarrow> Extension list \<Rightarrow> bool \<Rightarrow> bool" where
  "extension_found_loop extension [] extension_found = extension_found"
| "extension_found_loop extension (available_extension # rest) extension_found =
     extension_found_loop extension rest
       (if Extension_eq extension available_extension then True else extension_found)"

fun find_extensions_loop ::
  "Extension list \<Rightarrow> Extension list \<Rightarrow> Extension list \<Rightarrow> Extension list" where
  "find_extensions_loop [] available missing_extensions = missing_extensions"
| "find_extensions_loop (extension # rest) available missing_extensions =
     find_extensions_loop rest available
       (if \<not> extension_found_loop extension available False
        then missing_extensions @ [extension] else missing_extensions)"

definition find_extensions_in :: "Extension list \<Rightarrow> Extension list \<Rightarrow> Extension list" where
  "find_extensions_in extensions available = find_extensions_loop extensions available []"

fun layer_found_loop :: "Layer \<Rightarrow> Layer list \<Rightarrow> bool \<Rightarrow> bool" where
  "layer_found_loop layer [] layer_found = layer_found"
| "layer_found_loop layer (available_layer # rest) layer_found =
     layer_found_loop layer rest
       (if Layer_eq layer available_layer then True else layer_found)"

fun find_layers_loop :: "Layer list \<Rightarrow> Layer list \<Rightarrow> Layer list \<Rightarrow> Layer list" where
  "find_layers_loop [] available missing_layers = missing_layers"
| "find_layers_loop (layer # rest) available missing_layers =
     find_layers_loop rest available
       (if \<not> layer_found_loop layer available False
        then missing_layers @ [layer] else missing_layers)"

definition find_layers_in :: "Layer list \<Rightarrow> Layer list \<Rightarrow> Layer list" where
  "find_layers_in layers available = find_layers_loop layers available []"

subsection \<open>Instance::collapse (instance.cc:201-213)\<close>

fun collapse_extensions_loop :: "Extension list \<Rightarrow> string \<Rightarrow> string" where
  "collapse_extensions_loop [] extension_string = extension_string"
| "collapse_extensions_loop (extension # rest) extension_string =
     collapse_extensions_loop rest (extension_string @ (Extension.name extension @ '' ''))"

definition collapse_extensions :: "Extension list \<Rightarrow> string" where
  "collapse_extensions exts = collapse_extensions_loop exts ''''"

fun collapse_layers_loop :: "Layer list \<Rightarrow> string \<Rightarrow> string" where
  "collapse_layers_loop [] layer_string = layer_string"
| "collapse_layers_loop (layer # rest) layer_string =
     collapse_layers_loop rest (layer_string @ (Layer.name layer @ '' ''))"

definition collapse_layers :: "Layer list \<Rightarrow> string" where
  "collapse_layers layers = collapse_layers_loop layers ''''"

section \<open>The driver and the process-wide state\<close>

text \<open>
  The Vulkan loader is the environment of the program. What it answers is a parameter:
  \<open>installed_layers k\<close> and \<open>installed_extensions k\<close> are the properties it reports at
  the k-th enumeration call (already read as \<open>Layer\<close> and \<open>Extension\<close> values; the
  converting constructors live in the missing headers), and \<open>create_instance_result\<close>
  is the \<open>VkResult\<close> of \<open>vkCreateInstance\<close> for the given packed layer and extension
  names, \<open>0\<close> being \<open>VK_SUCCESS\<close>.
\<close>

record Driver =
  installed_layers :: "nat \<Rightarrow> Layer list"
  installed_extensions :: "nat \<Rightarrow> Extension list"
  create_instance_result :: "string list \<Rightarrow> string list \<Rightarrow> int"

text \<open>
  The state of the process: the two static caches of instance.cc:216-217, a count of the
  enumeration calls made so far, and the driver objects that are live, with a log of the
  releases. Handles are natural numbers and \<open>VK_NULL_HANDLE\<close> is \<open>0\<close>.
\<close>

record Process =
  available_layers :: "Layer list"
  available_extensions :: "Extension list"
  layer_enumerations :: nat
  extension_enumerations :: nat
  create_instance_calls :: nat
  live_instances :: "nat list"
  destroyed_instances :: "nat list"
  live_messengers :: "nat list"
  destroyed_messengers :: "nat list"

definition VK_NULL_HANDLE :: nat where
  "VK_NULL_HANDLE = 0"

definition startup :: Process where
  "startup = \<lparr>available_layers = [], available_extensions = [], layer_enumerations = 0,
     extension_enumerations = 0, create_instance_calls = 0, live_instances = [],
     destroyed_instances = [], live_messengers = [], destroyed_messengers = []\<rparr>"

text \<open>
  A value-initialised property structure read as a capability: the entries of the
  property vector that the driver does not overwrite stay like this.
\<close>

definition blank_layer :: Layer where
  "blank_layer = \<lparr>Layer.name = '''', spec_version = 0, implementation_version = 0,
     description = ''''\<rparr>"

definition blank_extension :: Extension where
  "blank_extension = \<lparr>Extension.name = '''', spec_version = 0\<rparr>"

text \<open>
  \<open>vkEnumerateInstanceLayerProperties(&count, nullptr)\<close> reports how many properties
  there are; with a buffer it writes as many as the buffer holds and leaves the rest of
  the buffer as it was. Either way it is one more enumeration call.
\<close>

definition vkEnumerateInstanceLayerProperties_count :: "Driver \<Rightarrow> Process \<Rightarrow> nat \<times> Process" where
  "vkEnumerateInstanceLayerProperties_count drv w =
     (length (installed_layers drv (layer_enumerations w)),
      w\<lparr>layer_enumerations := layer_enumerations w + 1\<rparr>)"

definition vkEnumerateInstanceLayerProperties_data ::
  "Driver \<Rightarrow> Layer list \<Rightarrow> Process \<Rightarrow> Layer list \<times> Process" where
  "vkEnumerateInstanceLayerProperties_data drv buffer w =
     (let reported = installed_layers drv (layer_enumerations w)
      in (take (length buffer) reported @ drop (length reported) buffer,
          w\<lparr>layer_enumerations := layer_enumerations w + 1\<rparr>))"

definition vkEnumerateInstanceExtensionProperties_count ::
  "Driver \<Rightarrow> Process \<Rightarrow> nat \<times> Process" where
  "vkEnumerateInstanceExtensionProperties_count drv w =
     (length (installed_extensions drv (extension_enumerations w)),
      w\<lparr>extension_enumerations := extension_enumerations w + 1\<rparr>)"

definition vkEnumerateInstanceExtensionProperties_data ::
  "Driver \<Rightarrow> Extension list \<Rightarrow> Process \<Rightarrow> Extension list \<times> Process" where
  "vkEnumerateInstanceExtensionProperties_data drv buffer w =
     (let reported = installed_extensions drv (extension_enumerations w)
      in (take (length buffer) reported @ drop (length reported) buffer,
          w\<lparr>extension_enumerations := extension_enumerations w + 1\<rparr>))"

subsection \<open>Instance::get_available_layers, get_available_extensions (instance.cc:166-199)\<close>

definition get_available_layers :: "Driver \<Rightarrow> Process \<Rightarrow> Layer list \<times> Process" where
  "get_available_layers drv w =
     (if available_layers w \<noteq> [] then (available_layers w, w)
      else
        let (layer_count, w1) = vkEnumerateInstanceLayerProperties_count drv w;
            (layer_properties, w2) =
               vkEnumerateInstanceLayerProperties_data drv (replicate layer_count blank_layer) w1;
            w3 = w2\<lparr>available_layers := layer_properties\<rparr>
        in (available_layers w3, w3))"

definition get_available_extensions :: "Driver \<Rightarrow> Process \<Rightarrow> Extension list \<times> Process" where
  "get_available_extensions drv w =
     (if available_extensions w \<noteq> [] then (available_extensions w, w)
      else
        let (extension_count, w1) = vkEnumerateInstanceExtensionProperties_count drv w;
            (extension_properties, w2) =
               vkEnumerateInstanceExtensionProperties_data drv
                 (replicate extension_count blank_extension) w1;
            w3 = w2\<lparr>available_extensions := extension_properties\<rparr>
        in (available_extensions w3, w3))"

subsection \<open>Instance::find against the cached lists (instance.cc:100-106)\<close>

definition find_layers :: "Driver \<Rightarrow> Layer list \<Rightarrow> Process \<Rightarrow> Layer list \<times> Process" where
  "find_layers drv layers w =
     (let (available, w1) = get_available_layers drv w
      in (find_layers_in layers available, w1))"

definition find_extensions ::
  "Driver \<Rightarrow> Extension list \<Rightarrow> Process \<Rightarrow> Extension list \<times> Process" where
  "find_extensions drv extensions w =
     (let (available, w1) = get_available_extensions drv w
      in (find_extensions_in extensions available, w1))"

section \<open>The instance (vkpp/instance.cc)\<close>

record Application =
  name :: string
  app_version :: nat
  engine_name :: string
  engine_version :: nat
  api_version :: nat

text \<open>
  The two ways \<open>vkpp::Exception\<close> is built in the constructor: from a headline and a
  message, and from a \<open>VkResult\<close> and a headline.
\<close>

datatype Exception = Exception string string | ResultException int string

text \<open>
  The debug messenger is held by its handle; the callback is identified by a number.
\<close>

record Instance =
  application_info :: Application
  enabled_layers :: "Layer list"
  enabled_extensions :: "Extension list"
  handle :: nat
  debug_utils_messenger :: nat

text \<open>
  Modelled from the spec: the default member initialisers of \<open>Instance\<close> are in the
  missing header; a default instance holds a null handle and no diagnostics channel, so
  that it can be destroyed safely.
\<close>

definition default_Instance :: Instance where
  "default_Instance =
     \<lparr>application_info = \<lparr>Application.name = '''', app_version = 0, engine_name = '''',
        engine_version = 0, api_version = 0\<rparr>,
      enabled_layers = [], enabled_extensions = [],
      handle = VK_NULL_HANDLE, debug_utils_messenger = VK_NULL_HANDLE\<rparr>"

text \<open>
  \<open>vkCreateInstance\<close>: on success the driver hands out a handle that was never used
  before, hence not null.
\<close>

definition vkCreateInstance ::
  "Driver \<Rightarrow> string list \<Rightarrow> string list \<Rightarrow> Process \<Rightarrow> (int \<times> nat) \<times> Process" where
  "vkCreateInstance drv layer_names extension_names w =
     (let error = create_instance_result drv layer_names extension_names;
          w1 = w\<lparr>create_instance_calls := create_instance_calls w + 1\<rparr>;
          fresh = Suc (length (live_instances w) + length (destroyed_instances w))
      in if error \<noteq> 0 then ((error, VK_NULL_HANDLE), w1)
         else ((0, fresh), w1\<lparr>live_instances := live_instances w1 @ [fresh]\<rparr>))"

definition vkDestroyInstance :: "nat \<Rightarrow> Process \<Rightarrow> Process" where
  "vkDestroyInstance h w =
     w\<lparr>live_instances := remove1 h (live_instances w),
       destroyed_instances := destroyed_instances w @ [h]\<rparr>"

text \<open>
  Modelled from the spec: \<open>vkpp::DebugMessenger\<close> is missing. Constructing one attaches
  a diagnostics channel bound to the callback; \<open>destroy\<close> releases the channel if there
  is one.
\<close>

definition DebugMessenger_create :: "nat \<Rightarrow> nat \<Rightarrow> Process \<Rightarrow> nat \<times> Process" where
  "DebugMessenger_create instance_handle debug_callback w =
     (let fresh = Suc (length (live_messengers w) + length (destroyed_messengers w))
      in (fresh, w\<lparr>live_messengers := live_messengers w @ [fresh]\<rparr>))"

definition DebugMessenger_destroy :: "nat \<Rightarrow> Process \<Rightarrow> Process" where
  "DebugMessenger_destroy m w =
     (if m \<noteq> VK_NULL_HANDLE
      then w\<lparr>live_messengers := remove1 m (live_messengers w),
             destroyed_messengers := destroyed_messengers w @ [m]\<rparr>
      else w)"

subsection \<open>Instance::Instance (instance.cc:6-68)\<close>

text \<open>The two copy loops that pack the names (instance.cc:45-51).\<close>

fun layer_names_loop :: "Layer list \<Rightarrow> string list \<Rightarrow> string list" where
  "layer_names_loop [] layer_names = layer_names"
| "layer_names_loop (layer # rest) layer_names =
     layer_names_loop rest (layer_names @ [Layer.name layer])"

fun extension_names_loop :: "Extension list \<Rightarrow> string list \<Rightarrow> string list" where
  "extension_names_loop [] extension_names = extension_names"
| "extension_names_loop (extension # rest) extension_names =
     extension_names_loop rest (extension_names @ [Extension.name extension])"

definition Instance_create ::
  "Driver \<Rightarrow> Application \<Rightarrow> Layer list \<Rightarrow> Extension list \<Rightarrow> nat \<Rightarrow> Process
     \<Rightarrow> (Exception + Instance) \<times> Process" where
  "Instance_create drv application_information required_layers required_extensions
       debug_callback w =
     (let this = default_Instance\<lparr>application_info := application_information,
                   enabled_layers := required_layers,
                   enabled_extensions := required_extensions\<rparr>;
          (missing_layers, w1) = find_layers drv required_layers w
      in if length missing_layers \<noteq> 0
         then (Inl (Exception ''couldn't create instance!''
                 (''the layers(s): '' @ collapse_layers missing_layers @ ''are missing!'')), w1)
         else
           let (missing_extensions, w2) = find_extensions drv required_extensions w1
           in if length missing_extensions \<noteq> 0
              then (Inl (Exception ''couldn't create instance!''
                      (''extension(s): '' @ collapse_extensions missing_extensions
                         @ ''are missing!'')), w2)
              else
                let layer_names = layer_names_loop required_layers [];
                    extension_names = extension_names_loop required_extensions [];
                    ((error, h), w3) = vkCreateInstance drv layer_names extension_names w2
                in if error \<noteq> 0
                   then (Inl (ResultException error ''couldn't create instance!''), w3)
                   else
                     if length (find_extensions_in [Extension_of_name ''VK_EXT_debug_utils'']
                                  required_extensions) = 0
                     then
                       if length (find_layers_in
                                    [Layer_of_name ''VK_LAYER_LUNARG_standard_validation'']
                                    required_layers) = 0
                       then
                         let (m, w4) = DebugMessenger_create h debug_callback w3
                         in (Inr (this\<lparr>handle := h, debug_utils_messenger := m\<rparr>), w4)
                       else (Inr (this\<lparr>handle := h\<rparr>), w3)
                     else (Inr (this\<lparr>handle := h\<rparr>), w3))"

subsection \<open>Destruction, move and swap (instance.cc:70-94)\<close>

definition Instance_destroy :: "Instance \<Rightarrow> Process \<Rightarrow> Process" where
  "Instance_destroy this w =
     (let w1 = DebugMessenger_destroy (debug_utils_messenger this) w
      in if handle this \<noteq> VK_NULL_HANDLE then vkDestroyInstance (handle this) w1 else w1)"

text \<open>\<open>swap\<close> exchanges the five members one by one; the pair is (lhs, rhs).\<close>

definition swap_Instance :: "Instance \<times> Instance \<Rightarrow> Instance \<times> Instance" where
  "swap_Instance p =
     (case p of (lhs, rhs) \<Rightarrow>
        (lhs\<lparr>application_info := application_info rhs,
             enabled_layers := enabled_layers rhs,
             enabled_extensions := enabled_extensions rhs,
             handle := handle rhs,
             debug_utils_messenger := debug_utils_messenger rhs\<rparr>,
         rhs\<lparr>application_info := application_info lhs,
             enabled_layers := enabled_layers lhs,
             enabled_extensions := enabled_extensions lhs,
             handle := handle lhs,
             debug_utils_messenger := debug_utils_messenger lhs\<rparr>))"

text \<open>
  The move constructor swaps a default-initialised \<open>*this\<close> with its argument and the
  move assignment swaps the two objects; both return (this, instance) as they are left.
\<close>

definition Instance_move :: "Instance \<Rightarrow> Instance \<times> Instance" where
  "Instance_move instance = swap_Instance (default_Instance, instance)"

definition Instance_move_assign :: "Instance \<Rightarrow> Instance \<Rightarrow> Instance \<times> Instance" where
  "Instance_move_assign this instance = swap_Instance (this, instance)"

section \<open>Concrete environments for the examples\<close>

definition bare_driver :: Driver where
  "bare_driver = \<lparr>installed_layers = (\<lambda>k. []),
     installed_extensions = (\<lambda>k. [Extension_of_name ''VK_KHR_surface'']),
     create_instance_result = (\<lambda>layer_names extension_names. 0)\<rparr>"

definition sdk_driver :: Driver where
  "sdk_driver = \<lparr>installed_layers = (\<lambda>k. [Layer_of_name ''VK_LAYER_LUNARG_standard_validation'']),
     installed_extensions =
       (\<lambda>k. [Extension_of_name ''VK_KHR_surface'', Extension_of_name ''VK_EXT_debug_utils'']),
     create_instance_result = (\<lambda>layer_names extension_names. 0)\<rparr>"

definition vkhr_application :: Application where
  "vkhr_application = \<lparr>Application.name = ''VKHR'', app_version = 1, engine_name = ''None'',
     engine_version = 1, api_version = 1\<rparr>"

section \<open>Floating-point values (vkhr/ray_tracer/hair_style.cc)\<close>

text \<open>
  A \<open>float\<close> is an IEEE 754 binary32 value: a real number, an infinity or NaN. The
  two zeros are not told apart (they compare equal in C++). Every arithmetic operation
  computes the exact real result and rounds it to binary32, to nearest with ties to
  even, as the hardware does.
\<close>

datatype float = Finite real | PlusInf | MinusInf | NaN

fun fneg :: "float \<Rightarrow> float" where
  "fneg (Finite a) = Finite (- a)"
| "fneg PlusInf = MinusInf"
| "fneg MinusInf = PlusInf"
| "fneg NaN = NaN"

text \<open>
  Rounding to an integer, ties to even; the binary exponent of a positive real, not
  below that of the subnormal numbers; and rounding of a magnitude to the 24 bits of
  binary32, which overflows to infinity from \<open>2 ^ 128\<close> on.
\<close>

definition round_half_even :: "real \<Rightarrow> int" where
  "round_half_even q =
     (let f = \<lfloor>q\<rfloor>
      in if q - of_int f < 1 / 2 then f
         else if 1 / 2 < q - of_int f then f + 1
         else if even f then f else f + 1)"

definition exponent32 :: "real \<Rightarrow> int" where
  "exponent32 x = max (- 126) \<lfloor>log 2 x\<rfloor>"

definition round_magnitude :: "real \<Rightarrow> float" where
  "round_magnitude x =
     (if x = 0 then Finite 0
      else
        let ulp = 2 powi (exponent32 x - 23);
            y = of_int (round_half_even (x / ulp)) * ulp
        in if 2 ^ 128 \<le> y then PlusInf else Finite y)"

definition round32 :: "real \<Rightarrow> float" where
  "round32 x = (if x < 0 then fneg (round_magnitude (- x)) else round_magnitude x)"

text \<open>The real numbers that are binary32 values, and the floats built from them.\<close>

definition is_binary32 :: "real \<Rightarrow> bool" where
  "is_binary32 x = (round32 x = Finite x)"

fun float_binary32 :: "float \<Rightarrow> bool" where
  "float_binary32 (Finite a) = is_binary32 a"
| "float_binary32 v = True"

fun fadd :: "float \<Rightarrow> float \<Rightarrow> float" where
  "fadd (Finite a) (Finite b) = round32 (a + b)"
| "fadd NaN b = NaN"
| "fadd a NaN = NaN"
| "fadd PlusInf MinusInf = NaN"
| "fadd MinusInf PlusInf = NaN"
| "fadd PlusInf b = PlusInf"
| "fadd MinusInf b = MinusInf"
| "fadd a PlusInf = PlusInf"
| "fadd a MinusInf = MinusInf"

definition fsub :: "float \<Rightarrow> float \<Rightarrow> float" where
  "fsub a b = fadd a (fneg b)"

text \<open>The sign of a value that is not NaN, and an infinity of a given sign.\<close>

fun fsign :: "float \<Rightarrow> int" where
  "fsign (Finite a) = (if a < 0 then - 1 else if a = 0 then 0 else 1)"
| "fsign PlusInf = 1"
| "fsign MinusInf = - 1"
| "fsign NaN = 0"

definition signed_inf :: "int \<Rightarrow> float" where
  "signed_inf s = (if s = 0 then NaN else if s < 0 then MinusInf else PlusInf)"

fun fmul :: "float \<Rightarrow> float \<Rightarrow> float" where
  "fmul (Finite a) (Finite b) = round32 (a * b)"
| "fmul NaN b = NaN"
| "fmul a NaN = NaN"
| "fmul a b = signed_inf (fsign a * fsign b)"

fun fless :: "float \<Rightarrow> float \<Rightarrow> bool" where
  "fless (Finite a) (Finite b) = (a < b)"
| "fless NaN b = False"
| "fless a NaN = False"
| "fless a MinusInf = False"
| "fless PlusInf b = False"
| "fless a PlusInf = True"
| "fless MinusInf b = True"

text \<open>\<open>std::sqrt\<close>: correctly rounded; the square root of a negative value is NaN.\<close>

fun fsqrt :: "float \<Rightarrow> float" where
  "fsqrt (Finite a) = (if a < 0 then NaN else round32 (sqrt a))"
| "fsqrt PlusInf = PlusInf"
| "fsqrt MinusInf = NaN"
| "fsqrt NaN = NaN"

text \<open>
  \<open>std::pow\<close> with the special cases of the C standard: any base to the power zero and
  one to any power are one, a negative base needs an integral exponent, and a zero base
  with a negative exponent is an infinity (positive here: a negative zero base, which
  \<open>kajiya_kay\<close> never passes, would make it negative for an odd exponent). Otherwise
  the exact power is rounded to binary32, so that it overflows and underflows.
\<close>

definition integral :: "real \<Rightarrow> bool" where
  "integral b = (b = of_int \<lfloor>b\<rfloor>)"

definition odd_integral :: "real \<Rightarrow> bool" where
  "odd_integral b = (integral b \<and> odd \<lfloor>b\<rfloor>)"

fun fpow_cases :: "float \<Rightarrow> float \<Rightarrow> float" where
  "fpow_cases NaN p = NaN"
| "fpow_cases b NaN = NaN"
| "fpow_cases (Finite a) (Finite b) =
     (if 0 < a then round32 (a powr b)
      else if a = 0 then (if 0 < b then Finite 0 else PlusInf)
      else if odd_integral b then round32 (- (\<bar>a\<bar> powr b))
      else if integral b then round32 (\<bar>a\<bar> powr b)
      else NaN)"
| "fpow_cases (Finite a) PlusInf =
     (if \<bar>a\<bar> < 1 then Finite 0 else if \<bar>a\<bar> = 1 then Finite 1 else PlusInf)"
| "fpow_cases (Finite a) MinusInf =
     (if \<bar>a\<bar> < 1 then PlusInf else if \<bar>a\<bar> = 1 then Finite 1 else Finite 0)"
| "fpow_cases PlusInf p = (if fsign p < 0 then Finite 0 else PlusInf)"
| "fpow_cases MinusInf (Finite b) =
     (if b < 0 then Finite 0 else if odd_integral b then MinusInf else PlusInf)"
| "fpow_cases MinusInf PlusInf = PlusInf"
| "fpow_cases MinusInf MinusInf = Finite 0"

definition fpow :: "float \<Rightarrow> float \<Rightarrow> float" where
  "fpow a p =
     (if p = Finite 0 then Finite 1
      else if a = Finite 1 then Finite 1
      else fpow_cases a p)"

text \<open>
  \<open>glm::clamp(x, lo, hi)\<close> is \<open>min(max(x, lo), hi)\<close>, where \<open>max(a, b)\<close> is
  \<open>(a < b) ? b : a\<close> and \<open>min(a, b)\<close> is \<open>(b < a) ? b : a\<close>.
\<close>

definition glm_max :: "float \<Rightarrow> float \<Rightarrow> float" where
  "glm_max a b = (if fless a b then b else a)"

definition glm_min :: "float \<Rightarrow> float \<Rightarrow> float" where
  "glm_min a b = (if fless b a then b else a)"

definition glm_clamp :: "float \<Rightarrow> float \<Rightarrow> float \<Rightarrow> float" where
  "glm_clamp v minVal maxVal = glm_min (glm_max v minVal) maxVal"

datatype vec3 = Vec3 float float float

datatype vec4 = Vec4 float float float float

text \<open>\<open>glm::dot\<close> multiplies componentwise and adds the products from left to right.\<close>

fun glm_dot :: "vec3 \<Rightarrow> vec3 \<Rightarrow> float" where
  "glm_dot (Vec3 ax ay az) (Vec3 bx by bz) = fadd (fadd (fmul ax bx) (fmul ay by)) (fmul az bz)"

fun vec3_scale :: "vec3 \<Rightarrow> float \<Rightarrow> vec3" where
  "vec3_scale (Vec3 vx vy vz) s = Vec3 (fmul vx s) (fmul vy s) (fmul vz s)"

fun vec3_add :: "vec3 \<Rightarrow> vec3 \<Rightarrow> vec3" where
  "vec3_add (Vec3 ax ay az) (Vec3 bx by bz) = Vec3 (fadd ax bx) (fadd ay by) (fadd az bz)"

text \<open>
  A colour whose components are finite; one whose components are finite and not
  negative; one whose components are binary32 values; and a value, or colour, that is
  neither negative nor NaN.
\<close>

fun vec3_finite :: "vec3 \<Rightarrow> bool" where
  "vec3_finite (Vec3 (Finite a) (Finite b) (Finite c)) = True"
| "vec3_finite v = False"

fun vec3_nonnegative :: "vec3 \<Rightarrow> bool" where
  "vec3_nonnegative (Vec3 (Finite a) (Finite b) (Finite c)) = (0 \<le> a \<and> 0 \<le> b \<and> 0 \<le> c)"
| "vec3_nonnegative v = False"

fun vec3_binary32 :: "vec3 \<Rightarrow> bool" where
  "vec3_binary32 (Vec3 a b c) = (float_binary32 a \<and> float_binary32 b \<and> float_binary32 c)"

fun not_negative_not_nan :: "float \<Rightarrow> bool" where
  "not_negative_not_nan (Finite a) = (0 \<le> a)"
| "not_negative_not_nan PlusInf = True"
| "not_negative_not_nan MinusInf = False"
| "not_negative_not_nan NaN = False"

fun vec3_not_negative_not_nan :: "vec3 \<Rightarrow> bool" where
  "vec3_not_negative_not_nan (Vec3 a b c) =
     (not_negative_not_nan a \<and> not_negative_not_nan b \<and> not_negative_not_nan c)"

section \<open>The shading model (hair_style.cc:78-100)\<close>

text \<open>
  The sine computed from a cosine (hair_style.cc:87-94): square, subtract from one, take
  the square root. There is no clamp in between.
\<close>

definition sin_from_cos :: "float \<Rightarrow> float" where
  "sin_from_cos cosT =
     (let cosT_squared = fmul cosT cosT;
          one_minus_cosT_squared = fsub (Finite 1) cosT_squared
      in fsqrt one_minus_cosT_squared)"

definition diffuse_colors :: "vec3 \<Rightarrow> vec3 \<Rightarrow> vec3 \<Rightarrow> vec3" where
  "diffuse_colors diffuse tangent light =
     (let cosTL = glm_dot light tangent;
          sinTL = sin_from_cos cosTL
      in vec3_scale diffuse sinTL)"

text \<open>
  The scalar the specular colour is scaled by (hair_style.cc:97): the clamped power.
\<close>

definition specular_factor :: "float \<Rightarrow> vec3 \<Rightarrow> vec3 \<Rightarrow> vec3 \<Rightarrow> float" where
  "specular_factor p tangent light eye =
     (let cosTL = glm_dot light tangent;
          cosTE = glm_dot eye tangent;
          sinTL = sin_from_cos cosTL;
          sinTE = sin_from_cos cosTE
      in glm_clamp (fpow (fadd (fmul cosTL cosTE) (fmul sinTL sinTE)) p) (Finite 0) (Finite 1))"

definition specular_colors :: "vec3 \<Rightarrow> float \<Rightarrow> vec3 \<Rightarrow> vec3 \<Rightarrow> vec3 \<Rightarrow> vec3" where
  "specular_colors specular p tangent light eye =
     vec3_scale specular (specular_factor p tangent light eye)"

definition kajiya_kay :: "vec3 \<Rightarrow> vec3 \<Rightarrow> float \<Rightarrow> vec3 \<Rightarrow> vec3 \<Rightarrow> vec3 \<Rightarrow> vec3" where
  "kajiya_kay diffuse specular p tangent light eye =
     vec3_add (diffuse_colors diffuse tangent light)
       (specular_colors specular p tangent light eye)"

text \<open>
  The albedo and the shininess that \<open>shade\<close> passes (hair_style.cc:47, 54): the
  literals converted to \<open>float\<close>.
\<close>

definition hair_diffuse :: vec3 where
  "hair_diffuse = Vec3 (round32 0.32) (round32 0.228) (round32 0.128)"

definition shininess :: float where
  "shininess = Finite 50"

section \<open>The ray-traced hair style (hair_style.cc:12-42)\<close>

text \<open>
  The strand data of \<open>vkhr::HairStyle\<close> that \<open>load\<close> reads: control points, their
  thickness, the tangents and the index sequence (\<open>unsigned\<close>, 32 bits).
\<close>

record vkhr_HairStyle =
  vertices :: "vec3 list"
  thickness :: "float list"
  tangents :: "vec3 list"
  indices :: "32 word list"

definition get_indices :: "vkhr_HairStyle \<Rightarrow> 32 word list" where
  "get_indices hair_style = indices hair_style"

text \<open>
  Modelled from the spec: \<open>create_position_thickness_data\<close> is missing; it packs one
  4-component entry per control point, the position followed by the thickness.
\<close>

fun position_thickness_entry :: "vec3 \<times> float \<Rightarrow> vec4" where
  "position_thickness_entry (Vec3 px py pz, t) = Vec4 px py pz t"

definition create_position_thickness_data :: "vkhr_HairStyle \<Rightarrow> vec4 list" where
  "create_position_thickness_data hair_style =
     map position_thickness_entry (zip (vertices hair_style) (thickness hair_style))"

text \<open>
  The Embree side. A shared buffer is the caller's array together with the byte offset,
  the byte stride and the item count it was registered with; a geometry holds the three
  buffers \<open>load\<close> sets; a scene is the list of the geometries attached to it, and the
  identifier of a geometry is its position in that list. Scenes are reached through
  their handle.
\<close>

datatype RTCGeometryType = RTC_GEOMETRY_TYPE_FLAT_LINEAR_CURVE

datatype RTCFormat = RTC_FORMAT_UINT | RTC_FORMAT_FLOAT3 | RTC_FORMAT_FLOAT4

record 'a SharedBuffer =
  format :: RTCFormat
  elements :: "'a list"
  byte_offset :: nat
  byte_stride :: nat
  item_count :: nat

record RTCGeometry =
  geometry_type :: RTCGeometryType
  vertex_buffer :: "vec4 SharedBuffer option"
  vertex_attribute_count :: nat
  vertex_attribute_buffer :: "vec3 SharedBuffer option"
  index_buffer :: "32 word SharedBuffer option"
  committed :: bool

record Raytracer =
  device :: nat
  scene :: nat

type_synonym Embree = "nat \<Rightarrow> RTCGeometry list"

definition rtcNewGeometry :: "nat \<Rightarrow> RTCGeometryType \<Rightarrow> RTCGeometry" where
  "rtcNewGeometry dev type =
     \<lparr>geometry_type = type, vertex_buffer = None, vertex_attribute_count = 0,
      vertex_attribute_buffer = None, index_buffer = None, committed = False\<rparr>"

definition rtcAttachGeometry :: "nat \<Rightarrow> RTCGeometry \<Rightarrow> Embree \<Rightarrow> nat \<times> Embree" where
  "rtcAttachGeometry scn geom embree =
     (length (embree scn), embree(scn := embree scn @ [geom]))"

text \<open>The sizes \<open>sizeof\<close> yields for a packed \<open>vec4\<close>, a \<open>vec3\<close> and an \<open>unsigned\<close>.\<close>

definition sizeof_vec4 :: nat where "sizeof_vec4 = 16"

definition sizeof_vec3 :: nat where "sizeof_vec3 = 12"

definition sizeof_unsigned :: nat where "sizeof_unsigned = 4"

record embree_HairStyle =
  position_thickness :: "vec4 list"
  scene :: nat
  geometry :: nat

text \<open>
  \<open>load\<close> has no failing path: it sets the three buffers, commits, attaches and returns.
  The index buffer is registered with a stride of two entries and \<open>indices.size() / 2\<close>
  items.
\<close>

definition load :: "vkhr_HairStyle \<Rightarrow> Raytracer \<Rightarrow> Embree \<Rightarrow> embree_HairStyle \<times> Embree" where
  "load hair_style raytracer embree =
     (let indices = get_indices hair_style;
          position_thickness = create_position_thickness_data hair_style;
          hair_geometry = rtcNewGeometry (device raytracer) RTC_GEOMETRY_TYPE_FLAT_LINEAR_CURVE;
          hair_geometry = hair_geometry\<lparr>vertex_buffer :=
            Some \<lparr>format = RTC_FORMAT_FLOAT4, elements = position_thickness, byte_offset = 0,
                  byte_stride = sizeof_vec4, item_count = length position_thickness\<rparr>\<rparr>;
          hair_geometry = hair_geometry\<lparr>vertex_attribute_count := 1\<rparr>;
          hair_geometry = hair_geometry\<lparr>vertex_attribute_buffer :=
            Some \<lparr>format = RTC_FORMAT_FLOAT3, elements = tangents hair_style, byte_offset = 0,
                  byte_stride = sizeof_vec3, item_count = length (tangents hair_style)\<rparr>\<rparr>;
          hair_geometry = hair_geometry\<lparr>index_buffer :=
            Some \<lparr>format = RTC_FORMAT_UINT, elements = indices, byte_offset = 0,
                  byte_stride = sizeof_unsigned * 2, item_count = length indices div 2\<rparr>\<rparr>;
          hair_geometry = hair_geometry\<lparr>committed := True\<rparr>;
          (geometry_id, embree1) =
             rtcAttachGeometry (Raytracer.scene raytracer) hair_geometry embree
      in (\<lparr>position_thickness = position_thickness, scene = Raytracer.scene raytracer,
            geometry = geometry_id\<rparr>, embree1))"

text \<open>
  What the ray tracer reads from a registered index buffer: item \<open>i\<close> is the entry at
  byte \<open>byte_offset + i * byte_stride\<close>, the first control point of curve segment \<open>i\<close>.
\<close>

definition curve_segments :: "32 word SharedBuffer \<Rightarrow> 32 word list" where
  "curve_segments buffer =
     map (\<lambda>i. elements buffer ! ((byte_offset buffer + i * byte_stride buffer) div sizeof_unsigned))
       [0..<item_count buffer]"

text \<open>
  The geometry that a call of \<open>load\<close> leaves last in the scene of the ray tracer, and
  the curve segments registered with it (none when it has no index buffer).
\<close>

definition attached_geometry :: "vkhr_HairStyle \<Rightarrow> Raytracer \<Rightarrow> Embree \<Rightarrow> RTCGeometry" where
  "attached_geometry hair_style raytracer embree =
     last (snd (load hair_style raytracer embree) (Raytracer.scene raytracer))"

definition registered_segments ::
  "vkhr_HairStyle \<Rightarrow> Raytracer \<Rightarrow> Embree \<Rightarrow> 32 word list" where
  "registered_segments hair_style raytracer embree =
     (case index_buffer (attached_geometry hair_style raytracer embree) of
        None \<Rightarrow> []
      | Some buffer \<Rightarrow> curve_segments buffer)"

definition one_strand :: vkhr_HairStyle where
  "one_strand = \<lparr>vertices = [Vec3 (Finite 0) (Finite 0) (Finite 0),
       Vec3 (Finite 0) (Finite 1) (Finite 0), Vec3 (Finite 0) (Finite 2) (Finite 0)],
     thickness = [Finite 1, Finite 1, Finite 1],
     tangents = [Vec3 (Finite 0) (Finite 1) (Finite 0), Vec3 (Finite 0) (Finite 1) (Finite 0),
       Vec3 (Finite 0) (Finite 1) (Finite 0)],
     indices = [0, 1, 1, 2]\<rparr>"

definition empty_scene :: Embree where
  "empty_scene = (\<lambda>scn. [])"

section \<open>Properties of the capability search\<close>

lemma extension_found_loop_iff:
  "extension_found_loop e available b \<longleftrightarrow>
     b \<or> Extension.name e \<in> Extension.name ` set available"
  by (induction available arbitrary: b) (auto simp: Extension_eq_def)

lemma layer_found_loop_iff:
  "layer_found_loop l available b \<longleftrightarrow> b \<or> Layer.name l \<in> Layer.name ` set available"
  by (induction available arbitrary: b) (auto simp: Layer_eq_def)

lemma find_extensions_loop_filter:
  "find_extensions_loop extensions available acc =
     acc @ filter (\<lambda>e. Extension.name e \<notin> Extension.name ` set available) extensions"
  by (induction extensions arbitrary: acc) (simp_all add: extension_found_loop_iff)

lemma find_layers_loop_filter:
  "find_layers_loop layers available acc =
     acc @ filter (\<lambda>l. Layer.name l \<notin> Layer.name ` set available) layers"
  by (induction layers arbitrary: acc) (simp_all add: layer_found_loop_iff)

lemma find_extensions_in_filter:
  "find_extensions_in extensions available =
     filter (\<lambda>e. Extension.name e \<notin> Extension.name ` set available) extensions"
  by (simp add: find_extensions_in_def find_extensions_loop_filter)

lemma find_layers_in_filter:
  "find_layers_in layers available =
     filter (\<lambda>l. Layer.name l \<notin> Layer.name ` set available) layers"
  by (simp add: find_layers_in_def find_layers_loop_filter)

text \<open>
  Claim C10. The search returns the missing entries in the order of the requested list
  and keeps duplicates: the result is the requested list with exactly the entries that
  have a name-equal available entry struck out, so an entry requested k times and
  available under no name-equal entry occurs k times in the result. This holds for the
  extension overload and for the layer overload.
\<close>

theorem find_keeps_order_and_duplicates:
  "find_extensions_in R A = filter (\<lambda>r. \<not> (\<exists>a \<in> set A. Extension_eq r a)) R
   \<and> find_layers_in R' A' = filter (\<lambda>r. \<not> (\<exists>a \<in> set A'. Layer_eq r a)) R'
   \<and> subseq (find_extensions_in R A) R
   \<and> subseq (find_layers_in R' A') R'
   \<and> ((\<forall>a \<in> set A. \<not> Extension_eq e a) \<longrightarrow>
        count_list (find_extensions_in R A) e = count_list R e)
   \<and> ((\<forall>a \<in> set A'. \<not> Layer_eq l a) \<longrightarrow>
        count_list (find_layers_in R' A') l = count_list R' l)"
proof -
  have pe: "(\<lambda>r. Extension.name r \<notin> Extension.name ` set A)
              = (\<lambda>r. \<not> (\<exists>a \<in> set A. Extension_eq r a))"
    by (auto simp: Extension_eq_def fun_eq_iff)
  have pl: "(\<lambda>r. Layer.name r \<notin> Layer.name ` set A')
              = (\<lambda>r. \<not> (\<exists>a \<in> set A'. Layer_eq r a))"
    by (auto simp: Layer_eq_def fun_eq_iff)
  have fe: "find_extensions_in R A = filter (\<lambda>r. \<not> (\<exists>a \<in> set A. Extension_eq r a)) R"
    by (simp add: find_extensions_in_filter pe)
  have fl: "find_layers_in R' A' = filter (\<lambda>r. \<not> (\<exists>a \<in> set A'. Layer_eq r a)) R'"
    by (simp add: find_layers_in_filter pl)
  have ce: "count_list (filter P xs) x = (if P x then count_list xs x else 0)"
    for P and xs :: "'a list" and x
    by (induction xs) auto
  show ?thesis
    unfolding fe fl by (simp add: ce)
qed

theorem find_keeps_order_and_duplicates_witness:
  "find_extensions_in
     [Extension_of_name ''b'', Extension_of_name ''a'', Extension_of_name ''b'']
     [Extension_of_name ''a''] = [Extension_of_name ''b'', Extension_of_name ''b'']
   \<and> count_list (find_extensions_in
        [Extension_of_name ''b'', Extension_of_name ''a'', Extension_of_name ''b'']
        [Extension_of_name ''a'']) (Extension_of_name ''b'') = 2
   \<and> find_layers_in [Layer_of_name ''y'', Layer_of_name ''x'', Layer_of_name ''y''] []
       = [Layer_of_name ''y'', Layer_of_name ''x'', Layer_of_name ''y'']
   \<and> count_list (find_layers_in
        [Layer_of_name ''y'', Layer_of_name ''x'', Layer_of_name ''y''] [])
        (Layer_of_name ''y'') = 2"
  using find_keeps_order_and_duplicates
    [of "[Extension_of_name ''b'', Extension_of_name ''a'', Extension_of_name ''b'']"
        "[Extension_of_name ''a'']"
        "[Layer_of_name ''y'', Layer_of_name ''x'', Layer_of_name ''y'']" "[]"
        "Extension_of_name ''b''" "Layer_of_name ''y''"]
  by (simp add: Extension_eq_def Extension_of_name_def Layer_eq_def Layer_of_name_def)

text \<open>
  Claim C3. For requested R and available A, the search returns exactly the elements of
  R that have no name-equal element in A. Enumerating R or A in another order (any
  permutation of either) yields the same elements with the same multiplicities. The
  result is empty exactly when every requested capability has a name-equal available one.
  Stated for the extension overload (R, A) and the layer overload (S, B).
\<close>

theorem find_exactly_the_missing:
  assumes "mset R2 = mset R" and "mset A2 = mset A"
    and "mset S2 = mset S" and "mset B2 = mset B"
  shows "set (find_extensions_in R A) = {r \<in> set R. \<forall>a \<in> set A. \<not> Extension_eq r a}
    \<and> set (find_layers_in S B) = {s \<in> set S. \<forall>b \<in> set B. \<not> Layer_eq s b}
    \<and> mset (find_extensions_in R2 A2) = mset (find_extensions_in R A)
    \<and> mset (find_layers_in S2 B2) = mset (find_layers_in S B)
    \<and> (find_extensions_in R A = [] \<longleftrightarrow> (\<forall>r \<in> set R. \<exists>a \<in> set A. Extension_eq r a))
    \<and> (find_layers_in S B = [] \<longleftrightarrow> (\<forall>s \<in> set S. \<exists>b \<in> set B. Layer_eq s b))"
proof -
  have c1: "set (find_extensions_in R A) = {r \<in> set R. \<forall>a \<in> set A. \<not> Extension_eq r a}"
    by (auto simp: find_extensions_in_filter Extension_eq_def)
  have c2: "set (find_layers_in S B) = {s \<in> set S. \<forall>b \<in> set B. \<not> Layer_eq s b}"
    by (auto simp: find_layers_in_filter Layer_eq_def)
  have "set A2 = set A"
    using assms(2) by (rule mset_eq_setD)
  then have c3: "mset (find_extensions_in R2 A2) = mset (find_extensions_in R A)"
    using assms(1) by (simp add: find_extensions_in_filter)
  have "set B2 = set B"
    using assms(4) by (rule mset_eq_setD)
  then have c4: "mset (find_layers_in S2 B2) = mset (find_layers_in S B)"
    using assms(3) by (simp add: find_layers_in_filter)
  have c5: "find_extensions_in R A = [] \<longleftrightarrow> (\<forall>r \<in> set R. \<exists>a \<in> set A. Extension_eq r a)"
    by (auto simp: find_extensions_in_filter Extension_eq_def filter_empty_conv)
  have c6: "find_layers_in S B = [] \<longleftrightarrow> (\<forall>s \<in> set S. \<exists>b \<in> set B. Layer_eq s b)"
    by (auto simp: find_layers_in_filter Layer_eq_def filter_empty_conv)
  from c1 c2 c3 c4 c5 c6 show ?thesis by blast
qed

theorem find_exactly_the_missing_witness:
  "set (find_extensions_in [Extension_of_name ''a'', Extension_of_name ''b'']
          [Extension_of_name ''c'', Extension_of_name ''a''])
     = {Extension_of_name ''b''}
   \<and> mset (find_extensions_in [Extension_of_name ''b'', Extension_of_name ''a'']
          [Extension_of_name ''a'', Extension_of_name ''c''])
     = mset (find_extensions_in [Extension_of_name ''a'', Extension_of_name ''b'']
          [Extension_of_name ''c'', Extension_of_name ''a''])
   \<and> set (find_layers_in [Layer_of_name ''x'', Layer_of_name ''y''] [Layer_of_name ''y''])
     = {Layer_of_name ''x''}
   \<and> mset (find_layers_in [Layer_of_name ''y'', Layer_of_name ''x''] [Layer_of_name ''y''])
     = mset (find_layers_in [Layer_of_name ''x'', Layer_of_name ''y''] [Layer_of_name ''y''])
   \<and> find_extensions_in [Extension_of_name ''a''] [Extension_of_name ''a''] = []
   \<and> find_layers_in [Layer_of_name ''y''] [Layer_of_name ''y''] = []"
proof -
  let ?R = "[Extension_of_name ''a'', Extension_of_name ''b'']"
  let ?R2 = "[Extension_of_name ''b'', Extension_of_name ''a'']"
  let ?A = "[Extension_of_name ''c'', Extension_of_name ''a'']"
  let ?A2 = "[Extension_of_name ''a'', Extension_of_name ''c'']"
  let ?S = "[Layer_of_name ''x'', Layer_of_name ''y'']"
  let ?S2 = "[Layer_of_name ''y'', Layer_of_name ''x'']"
  let ?B = "[Layer_of_name ''y'']"
  have h1: "mset ?R2 = mset ?R" by simp
  have h2: "mset ?A2 = mset ?A" by simp
  have h3: "mset ?S2 = mset ?S" by simp
  have h4: "mset ?B = mset ?B" by simp
  have e: "{r \<in> set ?R. \<forall>a \<in> set ?A. \<not> Extension_eq r a} = {Extension_of_name ''b''}"
    by (auto simp: Extension_eq_def Extension_of_name_def)
  have l: "{s \<in> set ?S. \<forall>b \<in> set ?B. \<not> Layer_eq s b} = {Layer_of_name ''x''}"
    by (auto simp: Layer_eq_def Layer_of_name_def)
  have h5: "mset [Extension_of_name ''a''] = mset [Extension_of_name ''a'']" by simp
  have a: "find_extensions_in [Extension_of_name ''a''] [Extension_of_name ''a''] = []"
    using find_exactly_the_missing [OF h5 h5 h4 h4]
    by (simp add: Extension_eq_def)
  have b: "find_layers_in ?B ?B = []"
    using find_exactly_the_missing [OF h5 h5 h4 h4]
    by (simp add: Layer_eq_def)
  show ?thesis
    using find_exactly_the_missing [OF h1 h2 h3 h4] a b
    by (simp only: e l simp_thms)
qed

section \<open>Properties of the capability cache\<close>

lemma startup_fields:
  "available_layers startup = []" "available_extensions startup = []"
  "layer_enumerations startup = 0" "extension_enumerations startup = 0"
  "create_instance_calls startup = 0" "live_instances startup = []"
  "destroyed_instances startup = []" "live_messengers startup = []"
  "destroyed_messengers startup = []"
  by (simp_all add: startup_def)

lemma get_available_layers_hit:
  "available_layers w \<noteq> [] \<Longrightarrow> get_available_layers drv w = (available_layers w, w)"
  by (simp add: get_available_layers_def)

lemma get_available_layers_miss:
  "available_layers w = [] \<Longrightarrow>
     get_available_layers drv w =
       (let n = length (installed_layers drv (layer_enumerations w));
            reported = installed_layers drv (layer_enumerations w + 1);
            props = take n reported @ drop (length reported) (replicate n blank_layer)
        in (props, w\<lparr>layer_enumerations := layer_enumerations w + 2, available_layers := props\<rparr>))"
  by (simp add: get_available_layers_def vkEnumerateInstanceLayerProperties_count_def
      vkEnumerateInstanceLayerProperties_data_def Let_def)


lemma get_available_extensions_hit:
  "available_extensions w \<noteq> [] \<Longrightarrow>
     get_available_extensions drv w = (available_extensions w, w)"
  by (simp add: get_available_extensions_def)

lemma get_available_extensions_miss:
  "available_extensions w = [] \<Longrightarrow>
     get_available_extensions drv w =
       (let n = length (installed_extensions drv (extension_enumerations w));
            reported = installed_extensions drv (extension_enumerations w + 1);
            props = take n reported @ drop (length reported) (replicate n blank_extension)
        in (props, w\<lparr>extension_enumerations := extension_enumerations w + 2,
                      available_extensions := props\<rparr>))"
  by (simp add: get_available_extensions_def vkEnumerateInstanceExtensionProperties_count_def
      vkEnumerateInstanceExtensionProperties_data_def Let_def)


lemma get_available_layers_objects:
  "create_instance_calls (snd (get_available_layers drv w)) = create_instance_calls w
   \<and> live_instances (snd (get_available_layers drv w)) = live_instances w
   \<and> destroyed_instances (snd (get_available_layers drv w)) = destroyed_instances w
   \<and> live_messengers (snd (get_available_layers drv w)) = live_messengers w
   \<and> destroyed_messengers (snd (get_available_layers drv w)) = destroyed_messengers w
   \<and> extension_enumerations (snd (get_available_layers drv w)) = extension_enumerations w
   \<and> available_extensions (snd (get_available_layers drv w)) = available_extensions w"
  by (cases "available_layers w = []")
     (simp_all add: get_available_layers_hit get_available_layers_miss Let_def)

lemma get_available_extensions_objects:
  "create_instance_calls (snd (get_available_extensions drv w)) = create_instance_calls w
   \<and> live_instances (snd (get_available_extensions drv w)) = live_instances w
   \<and> destroyed_instances (snd (get_available_extensions drv w)) = destroyed_instances w
   \<and> live_messengers (snd (get_available_extensions drv w)) = live_messengers w
   \<and> destroyed_messengers (snd (get_available_extensions drv w)) = destroyed_messengers w"
  by (cases "available_extensions w = []")
     (simp_all add: get_available_extensions_hit get_available_extensions_miss Let_def)

lemma sdk_layers:
  "get_available_layers sdk_driver startup =
     ([Layer_of_name ''VK_LAYER_LUNARG_standard_validation''],
      startup\<lparr>available_layers := [Layer_of_name ''VK_LAYER_LUNARG_standard_validation''],
        layer_enumerations := 2\<rparr>)"
  by (simp add: get_available_layers_miss startup_fields sdk_driver_def Let_def)

lemma sdk_extensions:
  "available_extensions w = [] \<Longrightarrow> extension_enumerations w = 0 \<Longrightarrow>
   get_available_extensions sdk_driver w =
     ([Extension_of_name ''VK_KHR_surface'', Extension_of_name ''VK_EXT_debug_utils''],
      w\<lparr>available_extensions :=
          [Extension_of_name ''VK_KHR_surface'', Extension_of_name ''VK_EXT_debug_utils''],
        extension_enumerations := 2\<rparr>)"
  by (simp add: get_available_extensions_miss sdk_driver_def Let_def)




section \<open>Properties of instance construction\<close>

lemma collapse_layers_loop_concat:
  "collapse_layers_loop layers acc = acc @ concat (map (\<lambda>l. Layer.name l @ '' '') layers)"
  by (induction layers arbitrary: acc) simp_all

lemma collapse_extensions_loop_concat:
  "collapse_extensions_loop exts acc = acc @ concat (map (\<lambda>e. Extension.name e @ '' '') exts)"
  by (induction exts arbitrary: acc) simp_all

lemma collapse_layers_concat:
  "collapse_layers layers = concat (map (\<lambda>l. Layer.name l @ '' '') layers)"
  by (simp add: collapse_layers_def collapse_layers_loop_concat)

lemma collapse_extensions_concat:
  "collapse_extensions exts = concat (map (\<lambda>e. Extension.name e @ '' '') exts)"
  by (simp add: collapse_extensions_def collapse_extensions_loop_concat)

lemma sublist_concat_map:
  assumes "x \<in> set xs"
  shows "sublist (f x) (concat (map f xs))"
proof -
  from assms obtain ys zs where "xs = ys @ x # zs"
    by (auto simp: in_set_conv_decomp)
  then have "concat (map f xs) = concat (map f ys) @ f x @ concat (map f zs)"
    by simp
  then show ?thesis
    unfolding sublist_def by blast
qed

lemma layer_names_loop_map:
  "layer_names_loop layers acc = acc @ map Layer.name layers"
  by (induction layers arbitrary: acc) simp_all

lemma extension_names_loop_map:
  "extension_names_loop exts acc = acc @ map Extension.name exts"
  by (induction exts arbitrary: acc) simp_all

lemma find_layers_eq:
  "find_layers drv L w =
     (find_layers_in L (fst (get_available_layers drv w)), snd (get_available_layers drv w))"
  by (simp add: find_layers_def split: prod.split)

lemma find_extensions_eq:
  "find_extensions drv E w =
     (find_extensions_in E (fst (get_available_extensions drv w)),
      snd (get_available_extensions drv w))"
  by (simp add: find_extensions_def split: prod.split)

lemma Instance_create_unfold:
  assumes "find_layers drv L w = (ml, w1)" and "find_extensions drv E w1 = (me, w2)"
    and "vkCreateInstance drv (map Layer.name L) (map Extension.name E) w2 = ((error, h), w3)"
    and "DebugMessenger_create h cb w3 = (m, w4)"
  shows "Instance_create drv app L E cb w =
    (if ml \<noteq> [] then
       (Inl (Exception ''couldn't create instance!''
          (''the layers(s): '' @ collapse_layers ml @ ''are missing!'')), w1)
     else if me \<noteq> [] then
       (Inl (Exception ''couldn't create instance!''
          (''extension(s): '' @ collapse_extensions me @ ''are missing!'')), w2)
     else if error \<noteq> 0 then (Inl (ResultException error ''couldn't create instance!''), w3)
     else if ''VK_EXT_debug_utils'' \<in> Extension.name ` set E
           \<and> ''VK_LAYER_LUNARG_standard_validation'' \<in> Layer.name ` set L
     then (Inr \<lparr>application_info = app, enabled_layers = L, enabled_extensions = E,
                handle = h, debug_utils_messenger = m\<rparr>, w4)
     else (Inr \<lparr>application_info = app, enabled_layers = L, enabled_extensions = E,
                handle = h, debug_utils_messenger = VK_NULL_HANDLE\<rparr>, w3))"
  using assms
  by (simp add: Instance_create_def layer_names_loop_map extension_names_loop_map
      find_extensions_in_filter find_layers_in_filter Extension_of_name_def Layer_of_name_def
      default_Instance_def)

lemma vkCreateInstance_messengers:
  "live_messengers (snd (vkCreateInstance drv ls es w)) = live_messengers w"
  by (simp add: vkCreateInstance_def Let_def)

lemma bare_run:
  "Instance_create bare_driver vkhr_application [] [] 7 startup =
     (Inr \<lparr>application_info = vkhr_application, enabled_layers = [], enabled_extensions = [],
           handle = 1, debug_utils_messenger = VK_NULL_HANDLE\<rparr>,
      startup\<lparr>available_extensions := [Extension_of_name ''VK_KHR_surface''],
        layer_enumerations := 2, extension_enumerations := 2,
        create_instance_calls := 1, live_instances := [1]\<rparr>)"
  by (simp add: Instance_create_def find_layers_def find_extensions_def
      get_available_layers_miss get_available_extensions_miss startup_def bare_driver_def
      find_layers_in_def find_extensions_in_def vkCreateInstance_def Let_def
      Extension_of_name_def Layer_of_name_def Extension_eq_def Layer_eq_def
      blank_extension_def default_Instance_def VK_NULL_HANDLE_def)

lemma sdk_run:
  "Instance_create sdk_driver vkhr_application
       [Layer_of_name ''VK_LAYER_LUNARG_standard_validation'']
       [Extension_of_name ''VK_EXT_debug_utils''] 7 startup =
     (Inr \<lparr>application_info = vkhr_application,
           enabled_layers = [Layer_of_name ''VK_LAYER_LUNARG_standard_validation''],
           enabled_extensions = [Extension_of_name ''VK_EXT_debug_utils''],
           handle = 1, debug_utils_messenger = 1\<rparr>,
      startup\<lparr>available_layers := [Layer_of_name ''VK_LAYER_LUNARG_standard_validation''],
        available_extensions :=
          [Extension_of_name ''VK_KHR_surface'', Extension_of_name ''VK_EXT_debug_utils''],
        layer_enumerations := 2, extension_enumerations := 2,
        create_instance_calls := 1, live_instances := [1], live_messengers := [1]\<rparr>)"
  by (simp add: Instance_create_def find_layers_def find_extensions_def
      get_available_layers_miss get_available_extensions_miss startup_def sdk_driver_def
      find_layers_in_def find_extensions_in_def vkCreateInstance_def Let_def
      Extension_of_name_def Layer_of_name_def Extension_eq_def Layer_eq_def
      blank_extension_def blank_layer_def default_Instance_def VK_NULL_HANDLE_def
      DebugMessenger_create_def)

lemma missing_layers_run:
  "Instance_create sdk_driver vkhr_application
       [Layer_of_name ''VK_LAYER_a'', Layer_of_name ''VK_LAYER_LUNARG_standard_validation'',
        Layer_of_name ''VK_LAYER_b'']
       [Extension_of_name ''VK_x''] 7 startup =
     (Inl (Exception ''couldn't create instance!''
        ''the layers(s): VK_LAYER_a VK_LAYER_b are missing!''),
      startup\<lparr>available_layers := [Layer_of_name ''VK_LAYER_LUNARG_standard_validation''],
        layer_enumerations := 2\<rparr>)"
  by (simp add: Instance_create_def find_layers_def sdk_layers
      find_layers_in_def collapse_layers_def Layer_of_name_def Layer_eq_def)

lemma missing_extensions_run:
  "Instance_create sdk_driver vkhr_application
       [Layer_of_name ''VK_LAYER_LUNARG_standard_validation'']
       [Extension_of_name ''VK_x'', Extension_of_name ''VK_EXT_debug_utils'',
        Extension_of_name ''VK_y''] 7 startup =
     (Inl (Exception ''couldn't create instance!''
        ''extension(s): VK_x VK_y are missing!''),
      startup\<lparr>available_layers := [Layer_of_name ''VK_LAYER_LUNARG_standard_validation''],
        available_extensions :=
          [Extension_of_name ''VK_KHR_surface'', Extension_of_name ''VK_EXT_debug_utils''],
        layer_enumerations := 2, extension_enumerations := 2\<rparr>)"
  by (simp add: Instance_create_def find_layers_def find_extensions_def sdk_layers
      sdk_extensions startup_fields
      find_layers_in_def find_extensions_in_def collapse_extensions_def
      Layer_of_name_def Layer_eq_def Extension_of_name_def Extension_eq_def)

text \<open>
  Claim C4. When a requested layer has no name-equal available layer, construction
  fails with the layer message, built from all the missing layers: the name of every
  such requested layer, followed by a blank, is part of it. This happens before the
  extensions are looked at (the state is the one left by the layer query). When no layer
  is missing and a requested extension has no name-equal available extension, it fails
  with the extension message, which likewise holds the name of every missing extension.
\<close>

theorem Instance_create_reports_every_missing_name:
  assumes "get_available_layers drv w = (layers, w1)"
    and "get_available_extensions drv w1 = (extensions, w2)"
    and "Instance_create drv app L E cb w = (result, w')"
  shows "((\<exists>l \<in> set L. \<forall>a \<in> set layers. \<not> Layer_eq l a) \<longrightarrow>
            result = Inl (Exception ''couldn't create instance!''
              (''the layers(s): '' @ collapse_layers (find_layers_in L layers) @ ''are missing!''))
            \<and> w' = w1 \<and> extension_enumerations w' = extension_enumerations w
            \<and> (\<forall>l \<in> set L. (\<forall>a \<in> set layers. \<not> Layer_eq l a) \<longrightarrow>
                 sublist (Layer.name l @ '' '') (collapse_layers (find_layers_in L layers))))
     \<and> (\<not> (\<exists>l \<in> set L. \<forall>a \<in> set layers. \<not> Layer_eq l a)
          \<and> (\<exists>e \<in> set E. \<forall>a \<in> set extensions. \<not> Extension_eq e a) \<longrightarrow>
            result = Inl (Exception ''couldn't create instance!''
              (''extension(s): '' @ collapse_extensions (find_extensions_in E extensions)
                 @ ''are missing!''))
            \<and> w' = w2
            \<and> (\<forall>e \<in> set E. (\<forall>a \<in> set extensions. \<not> Extension_eq e a) \<longrightarrow>
                 sublist (Extension.name e @ '' '')
                   (collapse_extensions (find_extensions_in E extensions))))"
proof -
  let ?ml = "find_layers_in L layers"
  let ?me = "find_extensions_in E extensions"
  have fl: "find_layers drv L w = (?ml, w1)"
    using assms(1) by (simp add: find_layers_eq)
  have fe: "find_extensions drv E w1 = (?me, w2)"
    using assms(2) by (simp add: find_extensions_eq)
  obtain error h w3 where vk:
    "vkCreateInstance drv (map Layer.name L) (map Extension.name E) w2 = ((error, h), w3)"
    by (metis surj_pair)
  obtain m w4 where dm: "DebugMessenger_create h cb w3 = (m, w4)"
    by (metis surj_pair)
  note unfold = Instance_create_unfold [OF fl fe vk dm, of app]
  have ml: "?ml \<noteq> [] \<longleftrightarrow> (\<exists>l \<in> set L. \<forall>a \<in> set layers. \<not> Layer_eq l a)"
    by (auto simp: find_layers_in_filter Layer_eq_def filter_empty_conv)
  have me: "?me \<noteq> [] \<longleftrightarrow> (\<exists>e \<in> set E. \<forall>a \<in> set extensions. \<not> Extension_eq e a)"
    by (auto simp: find_extensions_in_filter Extension_eq_def filter_empty_conv)
  have sl: "sublist (Layer.name l @ '' '') (collapse_layers ?ml)"
    if "l \<in> set L" and "\<forall>a \<in> set layers. \<not> Layer_eq l a" for l
  proof -
    from that have "l \<in> set ?ml"
      by (auto simp: find_layers_in_filter Layer_eq_def)
    then show ?thesis
      unfolding collapse_layers_concat by (rule sublist_concat_map)
  qed
  have se: "sublist (Extension.name e @ '' '') (collapse_extensions ?me)"
    if "e \<in> set E" and "\<forall>a \<in> set extensions. \<not> Extension_eq e a" for e
  proof -
    from that have "e \<in> set ?me"
      by (auto simp: find_extensions_in_filter Extension_eq_def)
    then show ?thesis
      unfolding collapse_extensions_concat by (rule sublist_concat_map)
  qed
  have x1: "extension_enumerations w1 = extension_enumerations w"
    using get_available_layers_objects [of drv w] assms(1) by simp
  have r1: "result = Inl (Exception ''couldn't create instance!''
              (''the layers(s): '' @ collapse_layers ?ml @ ''are missing!'')) \<and> w' = w1
            \<and> extension_enumerations w' = extension_enumerations w"
    if "?ml \<noteq> []"
    using that assms(3) unfold x1 by simp
  have r2: "result = Inl (Exception ''couldn't create instance!''
              (''extension(s): '' @ collapse_extensions ?me @ ''are missing!'')) \<and> w' = w2"
    if "?ml = []" and "?me \<noteq> []"
    using that assms(3) unfold by simp
  show ?thesis
    using r1 r2 sl se ml me by blast
qed

theorem Instance_create_reports_every_missing_name_witness:
  "fst (Instance_create sdk_driver vkhr_application
       [Layer_of_name ''VK_LAYER_a'', Layer_of_name ''VK_LAYER_LUNARG_standard_validation'',
        Layer_of_name ''VK_LAYER_b'']
       [Extension_of_name ''VK_x''] 7 startup)
     = Inl (Exception ''couldn't create instance!''
        ''the layers(s): VK_LAYER_a VK_LAYER_b are missing!'')
   \<and> sublist ''VK_LAYER_a '' ''VK_LAYER_a VK_LAYER_b ''
   \<and> sublist ''VK_LAYER_b '' ''VK_LAYER_a VK_LAYER_b ''
   \<and> fst (Instance_create sdk_driver vkhr_application
       [Layer_of_name ''VK_LAYER_LUNARG_standard_validation'']
       [Extension_of_name ''VK_x'', Extension_of_name ''VK_EXT_debug_utils'',
        Extension_of_name ''VK_y''] 7 startup)
     = Inl (Exception ''couldn't create instance!''
        ''extension(s): VK_x VK_y are missing!'')
   \<and> sublist ''VK_x '' ''VK_x VK_y ''
   \<and> sublist ''VK_y '' ''VK_x VK_y ''"
proof -
  let ?w1 = "startup\<lparr>available_layers := [Layer_of_name ''VK_LAYER_LUNARG_standard_validation''],
        layer_enumerations := 2\<rparr>"
  have e: "get_available_extensions sdk_driver ?w1 =
     ([Extension_of_name ''VK_KHR_surface'', Extension_of_name ''VK_EXT_debug_utils''],
      ?w1\<lparr>available_extensions :=
          [Extension_of_name ''VK_KHR_surface'', Extension_of_name ''VK_EXT_debug_utils''],
        extension_enumerations := 2\<rparr>)"
    by (rule sdk_extensions) (simp_all add: startup_fields)
  have a: "fst (Instance_create sdk_driver vkhr_application
       [Layer_of_name ''VK_LAYER_a'', Layer_of_name ''VK_LAYER_LUNARG_standard_validation'',
        Layer_of_name ''VK_LAYER_b'']
       [Extension_of_name ''VK_x''] 7 startup)
     = Inl (Exception ''couldn't create instance!''
        ''the layers(s): VK_LAYER_a VK_LAYER_b are missing!'')"
    by (simp add: missing_layers_run)
  have b: "fst (Instance_create sdk_driver vkhr_application
       [Layer_of_name ''VK_LAYER_LUNARG_standard_validation'']
       [Extension_of_name ''VK_x'', Extension_of_name ''VK_EXT_debug_utils'',
        Extension_of_name ''VK_y''] 7 startup)
     = Inl (Exception ''couldn't create instance!''
        ''extension(s): VK_x VK_y are missing!'')"
    by (simp add: missing_extensions_run)
  have sl: "sublist ''VK_LAYER_a '' ''VK_LAYER_a VK_LAYER_b ''
      \<and> sublist ''VK_LAYER_b '' ''VK_LAYER_a VK_LAYER_b ''"
    using Instance_create_reports_every_missing_name [OF sdk_layers e missing_layers_run]
    by (simp add: find_layers_in_def collapse_layers_def Layer_of_name_def Layer_eq_def)
  have se: "sublist ''VK_x '' ''VK_x VK_y '' \<and> sublist ''VK_y '' ''VK_x VK_y ''"
    using Instance_create_reports_every_missing_name [OF sdk_layers e missing_extensions_run]
    by (simp add: find_layers_in_def find_extensions_in_def collapse_extensions_def
        Layer_of_name_def Layer_eq_def Extension_of_name_def Extension_eq_def)
  from a b sl se show ?thesis
    by blast
qed

text \<open>
  Claim C7. When construction fails with a missing-capability exception (the two-string
  form, thrown only by the two capability checks), \<open>vkCreateInstance\<close> has not been
  called and the live instances, the live messengers and the release logs are what they
  were: no driver object was created, none is left behind.
\<close>

theorem Instance_create_missing_leaves_no_object:
  assumes "Instance_create drv app L E cb w = (Inl (Exception headline message), w')"
  shows "create_instance_calls w' = create_instance_calls w
    \<and> live_instances w' = live_instances w
    \<and> destroyed_instances w' = destroyed_instances w
    \<and> live_messengers w' = live_messengers w
    \<and> destroyed_messengers w' = destroyed_messengers w"
proof -
  let ?w1 = "snd (get_available_layers drv w)"
  let ?w2 = "snd (get_available_extensions drv ?w1)"
  obtain ml where fl: "find_layers drv L w = (ml, ?w1)"
    by (simp add: find_layers_eq)
  obtain me where fe: "find_extensions drv E ?w1 = (me, ?w2)"
    by (simp add: find_extensions_eq)
  obtain error h w3 where vk:
    "vkCreateInstance drv (map Layer.name L) (map Extension.name E) ?w2 = ((error, h), w3)"
    by (metis surj_pair)
  obtain m w4 where dm: "DebugMessenger_create h cb w3 = (m, w4)"
    by (metis surj_pair)
  note unfold = Instance_create_unfold [OF fl fe vk dm, of app]
  from assms unfold have "w' = ?w1 \<or> w' = ?w2"
    by (auto split: if_splits)
  then show ?thesis
    using get_available_layers_objects [of drv w]
      get_available_extensions_objects [of drv ?w1]
    by auto
qed

theorem Instance_create_missing_leaves_no_object_witness:
  "fst (Instance_create sdk_driver vkhr_application
       [Layer_of_name ''VK_LAYER_a'', Layer_of_name ''VK_LAYER_LUNARG_standard_validation'',
        Layer_of_name ''VK_LAYER_b'']
       [Extension_of_name ''VK_x''] 7 startup)
     = Inl (Exception ''couldn't create instance!''
        ''the layers(s): VK_LAYER_a VK_LAYER_b are missing!'')
   \<and> create_instance_calls (snd (Instance_create sdk_driver vkhr_application
       [Layer_of_name ''VK_LAYER_a'', Layer_of_name ''VK_LAYER_LUNARG_standard_validation'',
        Layer_of_name ''VK_LAYER_b'']
       [Extension_of_name ''VK_x''] 7 startup)) = 0
   \<and> live_instances (snd (Instance_create sdk_driver vkhr_application
       [Layer_of_name ''VK_LAYER_a'', Layer_of_name ''VK_LAYER_LUNARG_standard_validation'',
        Layer_of_name ''VK_LAYER_b'']
       [Extension_of_name ''VK_x''] 7 startup)) = []
   \<and> live_messengers (snd (Instance_create sdk_driver vkhr_application
       [Layer_of_name ''VK_LAYER_LUNARG_standard_validation'']
       [Extension_of_name ''VK_x'', Extension_of_name ''VK_EXT_debug_utils'',
        Extension_of_name ''VK_y''] 7 startup)) = []"
  using Instance_create_missing_leaves_no_object [OF missing_layers_run]
    Instance_create_missing_leaves_no_object [OF missing_extensions_run]
  by (simp add: missing_layers_run missing_extensions_run startup_fields)

text \<open>
  Claim C2, as the code has it. \<open>find\<close> returns what is missing from its second
  argument, so the two tests at instance.cc:65-66 succeed when the debug-utilities
  extension and the standard-validation layer are among the requested ones. For every
  successful construction, a messenger is attached if and only if the requested
  extensions contain \<open>VK_EXT_debug_utils\<close> and the requested layers contain
  \<open>VK_LAYER_LUNARG_standard_validation\<close>; then exactly one is attached, and otherwise
  none.
\<close>

theorem debug_messenger_attached_iff_both_requested:
  assumes "Instance_create drv app L E cb w = (Inr inst, w')"
  shows "(debug_utils_messenger inst \<noteq> VK_NULL_HANDLE \<longleftrightarrow>
            (\<exists>e \<in> set E. Extension.name e = ''VK_EXT_debug_utils'')
            \<and> (\<exists>l \<in> set L. Layer.name l = ''VK_LAYER_LUNARG_standard_validation''))
    \<and> (debug_utils_messenger inst \<noteq> VK_NULL_HANDLE \<longrightarrow>
          live_messengers w' = live_messengers w @ [debug_utils_messenger inst])
    \<and> (debug_utils_messenger inst = VK_NULL_HANDLE \<longrightarrow> live_messengers w' = live_messengers w)"
proof -
  let ?w1 = "snd (get_available_layers drv w)"
  let ?w2 = "snd (get_available_extensions drv ?w1)"
  obtain ml where fl: "find_layers drv L w = (ml, ?w1)"
    by (simp add: find_layers_eq)
  obtain me where fe: "find_extensions drv E ?w1 = (me, ?w2)"
    by (simp add: find_extensions_eq)
  obtain error h w3 where vk:
    "vkCreateInstance drv (map Layer.name L) (map Extension.name E) ?w2 = ((error, h), w3)"
    by (metis surj_pair)
  obtain m w4 where dm: "DebugMessenger_create h cb w3 = (m, w4)"
    by (metis surj_pair)
  note unfold = Instance_create_unfold [OF fl fe vk dm, of app]
  have m3: "live_messengers w3 = live_messengers w"
    using vkCreateInstance_messengers [of drv "map Layer.name L" "map Extension.name E" ?w2] vk
      get_available_layers_objects [of drv w] get_available_extensions_objects [of drv ?w1]
    by simp
  have m4: "m \<noteq> VK_NULL_HANDLE \<and> live_messengers w4 = live_messengers w3 @ [m]"
    using dm by (auto simp: DebugMessenger_create_def VK_NULL_HANDLE_def Let_def)
  let ?both = "''VK_EXT_debug_utils'' \<in> Extension.name ` set E
           \<and> ''VK_LAYER_LUNARG_standard_validation'' \<in> Layer.name ` set L"
  have both: "?both \<longleftrightarrow> (\<exists>e \<in> set E. Extension.name e = ''VK_EXT_debug_utils'')
            \<and> (\<exists>l \<in> set L. Layer.name l = ''VK_LAYER_LUNARG_standard_validation'')"
    by (simp only: image_iff) metis
  have ok: "ml = []" "me = []" "error = 0"
    using assms unfold by (auto split: if_splits)
  have "(?both \<and> debug_utils_messenger inst = m \<and> w' = w4)
      \<or> (\<not> ?both \<and> debug_utils_messenger inst = VK_NULL_HANDLE \<and> w' = w3)"
    using assms unfold ok by (auto split: if_splits)
  then show ?thesis
    using m3 m4 both by auto
qed

theorem debug_messenger_attached_iff_both_requested_witness:
  "debug_utils_messenger (projr (fst (Instance_create sdk_driver vkhr_application
         [Layer_of_name ''VK_LAYER_LUNARG_standard_validation'']
         [Extension_of_name ''VK_EXT_debug_utils''] 7 startup))) = 1
   \<and> live_messengers (snd (Instance_create sdk_driver vkhr_application
         [Layer_of_name ''VK_LAYER_LUNARG_standard_validation'']
         [Extension_of_name ''VK_EXT_debug_utils''] 7 startup)) = [1]
   \<and> debug_utils_messenger (projr (fst (Instance_create bare_driver vkhr_application
         [] [] 7 startup))) = VK_NULL_HANDLE
   \<and> live_messengers (snd (Instance_create bare_driver vkhr_application [] [] 7 startup)) = []"
  using debug_messenger_attached_iff_both_requested [OF sdk_run]
    debug_messenger_attached_iff_both_requested [OF bare_run]
  by (simp add: sdk_run bare_run startup_fields VK_NULL_HANDLE_def)

text \<open>
  Claim C2 as stated fails in both directions: with neither capability requested the
  constructed instance has no messenger, and with both requested (and available) it has
  one.
\<close>

theorem debug_messenger_counterexample:
  "(\<exists>inst w'. Instance_create bare_driver vkhr_application [] [] 7 startup = (Inr inst, w')
       \<and> debug_utils_messenger inst = VK_NULL_HANDLE \<and> live_messengers w' = [])
   \<and> (\<exists>inst w'. Instance_create sdk_driver vkhr_application
         [Layer_of_name ''VK_LAYER_LUNARG_standard_validation'']
         [Extension_of_name ''VK_EXT_debug_utils''] 7 startup = (Inr inst, w')
       \<and> debug_utils_messenger inst \<noteq> VK_NULL_HANDLE
       \<and> live_messengers w' = [debug_utils_messenger inst])"
  by (simp add: bare_run sdk_run startup_fields VK_NULL_HANDLE_def)

section \<open>Properties of move and destruction\<close>

lemma swap_Instance_exchanges: "swap_Instance (lhs, rhs) = (rhs, lhs)"
  by (simp add: swap_Instance_def)

lemma Instance_destroy_null:
  "handle i = VK_NULL_HANDLE \<Longrightarrow> debug_utils_messenger i = VK_NULL_HANDLE \<Longrightarrow>
     Instance_destroy i w = w"
  by (simp add: Instance_destroy_def DebugMessenger_destroy_def)

lemma Instance_destroy_log:
  "handle i \<noteq> VK_NULL_HANDLE \<Longrightarrow>
     destroyed_instances (Instance_destroy i w) = destroyed_instances w @ [handle i]"
  by (simp add: Instance_destroy_def DebugMessenger_destroy_def vkDestroyInstance_def)

text \<open>
  Claim C6, as the code has it. Move construction hands the whole state to the new
  instance and leaves the source with a null handle and no messenger, so destroying the
  source changes nothing and destroying the destination releases the handle exactly
  once. Move assignment is a swap: the source is left with the former state of the
  destination, and destroying it releases the destination's former handle.
\<close>

theorem move_transfers_ownership:
  "fst (Instance_move src) = src
   \<and> handle (snd (Instance_move src)) = VK_NULL_HANDLE
   \<and> debug_utils_messenger (snd (Instance_move src)) = VK_NULL_HANDLE
   \<and> Instance_destroy (snd (Instance_move src)) w = w
   \<and> (handle src \<noteq> VK_NULL_HANDLE \<longrightarrow>
        destroyed_instances
          (Instance_destroy (fst (Instance_move src))
             (Instance_destroy (snd (Instance_move src)) w))
        = destroyed_instances w @ [handle src])
   \<and> Instance_move_assign this src = (src, this)
   \<and> (handle this \<noteq> VK_NULL_HANDLE \<longrightarrow>
        destroyed_instances (Instance_destroy (snd (Instance_move_assign this src)) w)
        = destroyed_instances w @ [handle this])"
proof -
  have m: "Instance_move src = (src, default_Instance)"
    by (simp add: Instance_move_def swap_Instance_exchanges)
  have d: "handle default_Instance = VK_NULL_HANDLE"
    "debug_utils_messenger default_Instance = VK_NULL_HANDLE"
    by (simp_all add: default_Instance_def)
  have n: "Instance_destroy default_Instance w = w"
    by (rule Instance_destroy_null) (rule d)+
  have a: "Instance_move_assign this src = (src, this)"
    by (simp add: Instance_move_assign_def swap_Instance_exchanges)
  show ?thesis
    by (simp add: m d n a Instance_destroy_log)
qed

theorem move_transfers_ownership_witness:
  "Instance_destroy (snd (Instance_move (default_Instance\<lparr>handle := 1\<rparr>)))
       (startup\<lparr>live_instances := [1]\<rparr>) = startup\<lparr>live_instances := [1]\<rparr>
   \<and> destroyed_instances
        (Instance_destroy (fst (Instance_move (default_Instance\<lparr>handle := 1\<rparr>)))
           (Instance_destroy (snd (Instance_move (default_Instance\<lparr>handle := 1\<rparr>)))
              (startup\<lparr>live_instances := [1]\<rparr>))) = [1]
   \<and> destroyed_instances
        (Instance_destroy
           (snd (Instance_move_assign (default_Instance\<lparr>handle := 1\<rparr>)
                   (default_Instance\<lparr>handle := 2\<rparr>)))
           (startup\<lparr>live_instances := [1, 2]\<rparr>)) = [1]"
proof -
  let ?a = "default_Instance\<lparr>handle := 1\<rparr>"
  let ?b = "default_Instance\<lparr>handle := 2\<rparr>"
  let ?w = "startup\<lparr>live_instances := [1]\<rparr>"
  let ?v = "startup\<lparr>live_instances := [1, 2]\<rparr>"
  have live: "handle ?a \<noteq> VK_NULL_HANDLE"
    by (simp add: VK_NULL_HANDLE_def)
  note t1 = move_transfers_ownership [of ?a ?w ?a]
  note t2 = move_transfers_ownership [of ?b ?v ?a]
  from t1 have c1: "Instance_destroy (snd (Instance_move ?a)) ?w = ?w"
    by blast
  from t1 live have "destroyed_instances
        (Instance_destroy (fst (Instance_move ?a)) (Instance_destroy (snd (Instance_move ?a)) ?w))
      = destroyed_instances ?w @ [handle ?a]"
    by blast
  also have "\<dots> = [1]"
    by (simp add: startup_fields)
  finally have c2: "destroyed_instances
        (Instance_destroy (fst (Instance_move ?a)) (Instance_destroy (snd (Instance_move ?a)) ?w))
      = [1]" .
  from t2 live have "destroyed_instances
        (Instance_destroy (snd (Instance_move_assign ?a ?b)) ?v)
      = destroyed_instances ?v @ [handle ?a]"
    by blast
  also have "\<dots> = [1]"
    by (simp add: startup_fields)
  finally have c3: "destroyed_instances
        (Instance_destroy (snd (Instance_move_assign ?a ?b)) ?v) = [1]" .
  from c1 c2 c3 show ?thesis
    by blast
qed

text \<open>
  Claim C6 as stated ("moving clears the source's handle, destroying the moved-from
  instance releases nothing") fails for move assignment onto a live instance: the
  moved-from instance holds handle 1 and its destruction releases it.
\<close>

theorem moved_from_still_owns_counterexample:
  "handle (snd (Instance_move_assign (default_Instance\<lparr>handle := 1\<rparr>)
                 (default_Instance\<lparr>handle := 2\<rparr>))) = 1
   \<and> Instance_destroy
        (snd (Instance_move_assign (default_Instance\<lparr>handle := 1\<rparr>)
                (default_Instance\<lparr>handle := 2\<rparr>)))
        (startup\<lparr>live_instances := [1, 2]\<rparr>)
      = startup\<lparr>live_instances := [2], destroyed_instances := [1]\<rparr>"
  by (simp add: Instance_move_assign_def swap_Instance_def Instance_destroy_def
      DebugMessenger_destroy_def vkDestroyInstance_def default_Instance_def
      VK_NULL_HANDLE_def startup_def)

section \<open>Properties of the curve builder\<close>

lemma load_result:
  "load hair_style raytracer embree =
     (\<lparr>position_thickness = create_position_thickness_data hair_style,
       scene = Raytracer.scene raytracer,
       geometry = length (embree (Raytracer.scene raytracer))\<rparr>,
      embree(Raytracer.scene raytracer := embree (Raytracer.scene raytracer) @
        [\<lparr>geometry_type = RTC_GEOMETRY_TYPE_FLAT_LINEAR_CURVE,
          vertex_buffer = Some \<lparr>format = RTC_FORMAT_FLOAT4,
            elements = create_position_thickness_data hair_style, byte_offset = 0,
            byte_stride = sizeof_vec4,
            item_count = length (create_position_thickness_data hair_style)\<rparr>,
          vertex_attribute_count = 1,
          vertex_attribute_buffer = Some \<lparr>format = RTC_FORMAT_FLOAT3,
            elements = tangents hair_style, byte_offset = 0, byte_stride = sizeof_vec3,
            item_count = length (tangents hair_style)\<rparr>,
          index_buffer = Some \<lparr>format = RTC_FORMAT_UINT, elements = indices hair_style,
            byte_offset = 0, byte_stride = sizeof_unsigned * 2,
            item_count = length (indices hair_style) div 2\<rparr>,
          committed = True\<rparr>]))"
  by (simp add: load_def rtcAttachGeometry_def rtcNewGeometry_def get_indices_def Let_def)

lemma attached_index_buffer:
  "index_buffer (attached_geometry hair_style raytracer embree) =
     Some \<lparr>format = RTC_FORMAT_UINT, elements = indices hair_style,
            byte_offset = 0, byte_stride = sizeof_unsigned * 2,
            item_count = length (indices hair_style) div 2\<rparr>"
  by (simp add: attached_geometry_def load_result)

lemma attached_is_new:
  "snd (load hair_style raytracer embree) =
     embree(Raytracer.scene raytracer := embree (Raytracer.scene raytracer) @
       [attached_geometry hair_style raytracer embree])"
  by (simp add: attached_geometry_def load_result)

text \<open>
  Claim C1, as the code has it. For every strand geometry, \<open>load\<close> attaches one new
  geometry to the scene, and its index buffer is registered with a stride of two raw
  entries and as many curve segments as half the raw index count, rounded down: an
  index sequence of length 2N registers exactly N segments, and one of length 2N+1
  registers N segments as well, the last entry being left out. The build never fails.
\<close>

theorem load_registers_half_the_indices:
  "snd (load hair_style raytracer embree) =
     embree(Raytracer.scene raytracer := embree (Raytracer.scene raytracer) @
       [attached_geometry hair_style raytracer embree])
   \<and> index_buffer (attached_geometry hair_style raytracer embree) =
       Some \<lparr>format = RTC_FORMAT_UINT, elements = indices hair_style,
              byte_offset = 0, byte_stride = sizeof_unsigned * 2,
              item_count = length (indices hair_style) div 2\<rparr>
   \<and> length (registered_segments hair_style raytracer embree)
       = length (indices hair_style) div 2
   \<and> (length (indices hair_style) = 2 * N \<longrightarrow>
        length (registered_segments hair_style raytracer embree) = N)
   \<and> (length (indices hair_style) = 2 * N + 1 \<longrightarrow>
        length (registered_segments hair_style raytracer embree) = N)"
proof -
  have "length (registered_segments hair_style raytracer embree)
      = length (indices hair_style) div 2"
    by (simp add: registered_segments_def attached_index_buffer curve_segments_def)
  then show ?thesis
    using attached_is_new [of hair_style raytracer embree]
      attached_index_buffer [of hair_style raytracer embree]
    by simp
qed

theorem load_registers_half_the_indices_witness:
  "length (indices one_strand) = 2 * 2
   \<and> length (registered_segments one_strand \<lparr>device = 1, scene = 1\<rparr> empty_scene) = 2
   \<and> length (indices (one_strand\<lparr>indices := [0, 1, 1, 2, 2]\<rparr>)) = 2 * 2 + 1
   \<and> length (registered_segments (one_strand\<lparr>indices := [0, 1, 1, 2, 2]\<rparr>)
        \<lparr>device = 1, scene = 1\<rparr> empty_scene) = 2"
proof -
  have n: "length (indices one_strand) = 2 * 2"
    by (simp add: one_strand_def)
  have m: "length (indices (one_strand\<lparr>indices := [0, 1, 1, 2, 2]\<rparr>)) = 2 * 2 + 1"
    by simp
  from load_registers_half_the_indices [of one_strand "\<lparr>device = 1, scene = 1\<rparr>" empty_scene 2]
    n have a: "length (registered_segments one_strand \<lparr>device = 1, scene = 1\<rparr> empty_scene) = 2"
    by blast
  from load_registers_half_the_indices [of "one_strand\<lparr>indices := [0, 1, 1, 2, 2]\<rparr>"
      "\<lparr>device = 1, scene = 1\<rparr>" empty_scene 2]
    m have b: "length (registered_segments (one_strand\<lparr>indices := [0, 1, 1, 2, 2]\<rparr>)
        \<lparr>device = 1, scene = 1\<rparr> empty_scene) = 2"
    by blast
  from n m a b show ?thesis
    by blast
qed

text \<open>
  Claim C1 as stated fails on an odd-length index sequence: with the three entries
  0, 1, 1 the build is not rejected; a committed geometry with one curve segment, the
  one starting at control point 0, is attached to the scene.
\<close>

theorem load_accepts_odd_index_count_counterexample:
  "length (indices (one_strand\<lparr>indices := [0, 1, 1]\<rparr>)) = 3
   \<and> length (snd (load (one_strand\<lparr>indices := [0, 1, 1]\<rparr>) \<lparr>device = 1, scene = 1\<rparr>
               empty_scene) 1) = 1
   \<and> committed (attached_geometry (one_strand\<lparr>indices := [0, 1, 1]\<rparr>)
        \<lparr>device = 1, scene = 1\<rparr> empty_scene)
   \<and> registered_segments (one_strand\<lparr>indices := [0, 1, 1]\<rparr>)
        \<lparr>device = 1, scene = 1\<rparr> empty_scene = [0]"
  by (simp add: load_result attached_geometry_def registered_segments_def empty_scene_def
      curve_segments_def sizeof_unsigned_def)

section \<open>Properties of rounding to binary32\<close>

lemma round_half_even_nonnegative: "0 \<le> q \<Longrightarrow> 0 \<le> round_half_even q"
  by (auto simp: round_half_even_def Let_def)

lemma round_half_even_le:
  assumes "q \<le> of_int n"
  shows "round_half_even q \<le> n"
proof (cases "q = of_int n")
  case True
  then show ?thesis
    by (simp add: round_half_even_def)
next
  case False
  with assms have "q < of_int n"
    by simp
  then have "\<lfloor>q\<rfloor> < n"
    by (simp add: floor_less_iff)
  then show ?thesis
    by (auto simp: round_half_even_def Let_def)
qed

lemma round_half_even_of_int: "round_half_even (of_int n) = n"
  by (simp add: round_half_even_def)

lemma exponent32_upper:
  assumes "0 < x"
  shows "x < 2 powi (exponent32 x + 1)"
proof -
  let ?k = "\<lfloor>log 2 x\<rfloor>"
  have "(\<lfloor>log 2 x\<rfloor> = ?k)
      = (2 powr real_of_int ?k \<le> x \<and> x < 2 powr real_of_int (?k + 1))"
    by (rule floor_log_eq_powr_iff) (use assms in simp_all)
  then have "x < 2 powr real_of_int (?k + 1)"
    by (simp only: simp_thms)
  moreover have "2 powr real_of_int (?k + 1) = (2::real) powi (?k + 1)"
    by (rule powr_real_of_int') simp_all
  ultimately have "x < 2 powi (?k + 1)"
    by (simp only:)
  also have "\<dots> \<le> 2 powi (exponent32 x + 1)"
    by (rule power_int_increasing) (simp_all add: exponent32_def)
  finally show ?thesis .
qed

lemma exponent32_normal:
  assumes "2 powi e \<le> x" and "x < 2 powi (e + 1)" and "- 126 \<le> e"
  shows "exponent32 x = e"
proof -
  have "0 < (2::real) powi e"
    by (rule zero_less_power_int) simp
  with assms(1) have pos: "0 < x"
    by linarith
  have p1: "2 powr real_of_int e = (2::real) powi e"
    by (rule powr_real_of_int') simp_all
  have p2: "2 powr real_of_int (e + 1) = (2::real) powi (e + 1)"
    by (rule powr_real_of_int') simp_all
  have "(\<lfloor>log 2 x\<rfloor> = e)
      = (2 powr real_of_int e \<le> x \<and> x < 2 powr real_of_int (e + 1))"
    by (rule floor_log_eq_powr_iff) (use pos in simp_all)
  with assms(1,2) have "\<lfloor>log 2 x\<rfloor> = e"
    by (simp only: p1 p2 simp_thms)
  with assms(3) show ?thesis
    by (simp add: exponent32_def)
qed

lemma exponent32_below_one:
  assumes "0 < x" and "x < 1"
  shows "exponent32 x \<le> - 1"
proof -
  from assms have "log 2 x < 0"
    by simp
  then have "\<lfloor>log 2 x\<rfloor> \<le> - 1"
    by (simp add: floor_le_iff)
  then show ?thesis
    by (simp add: exponent32_def)
qed

text \<open>How a given positive real in the normal range is rounded.\<close>

lemma round32_normal:
  assumes "2 powi e \<le> x" and "x < 2 powi (e + 1)" and "- 126 \<le> e"
    and "round_half_even (x / 2 powi (e - 23)) = n"
    and "of_int n * 2 powi (e - 23) = y" and "y < 2 ^ 128"
  shows "round32 x = Finite y"
proof -
  have "0 < (2::real) powi e"
    by (rule zero_less_power_int) simp
  with assms(1) have pos: "0 < x"
    by linarith
  have e: "exponent32 x = e"
    using assms(1-3) by (rule exponent32_normal)
  from pos show ?thesis
    using assms(4-6) by (simp add: round32_def round_magnitude_def e Let_def)
qed

lemma round32_zero: "round32 0 = Finite 0"
  by (simp add: round32_def round_magnitude_def)

lemma round32_one: "round32 1 = Finite 1"
  by (rule round32_normal [where e = 0 and n = "2 ^ 23"])
     (simp_all add: round_half_even_def)

lemma round_magnitude_nonnegative:
  assumes "0 \<le> x"
  shows "not_negative_not_nan (round_magnitude x)"
proof (cases "x = 0")
  case True
  then show ?thesis
    by (simp add: round_magnitude_def)
next
  case False
  let ?u = "2 powi (exponent32 x - 23) :: real"
  have u: "0 < ?u"
    by (rule zero_less_power_int) simp
  with assms have "0 \<le> x / ?u"
    by simp
  then have "0 \<le> round_half_even (x / ?u)"
    by (rule round_half_even_nonnegative)
  with u have "0 \<le> of_int (round_half_even (x / ?u)) * ?u"
    by simp
  with False show ?thesis
    by (simp add: round_magnitude_def Let_def)
qed

lemma round32_nonnegative: "0 \<le> x \<Longrightarrow> not_negative_not_nan (round32 x)"
  using round_magnitude_nonnegative [of x] by (simp add: round32_def)

lemma round_magnitude_unit:
  assumes "0 \<le> x" and "x \<le> 1"
  shows "\<exists>y. round_magnitude x = Finite y \<and> 0 \<le> y \<and> y \<le> 1"
proof -
  consider "x = 0" | "x = 1" | "0 < x" "x < 1"
    using assms by fastforce
  then show ?thesis
  proof cases
    case 1
    then show ?thesis
      by (simp add: round_magnitude_def)
  next
    case 2
    have "round_magnitude 1 = Finite 1"
      using round32_one by (simp add: round32_def)
    with 2 show ?thesis
      by simp
  next
    case 3
    let ?e = "exponent32 x"
    let ?u = "2 powi (?e - 23) :: real"
    let ?n = "round_half_even (x / ?u)"
    have u: "0 < ?u"
      by (rule zero_less_power_int) simp
    have e: "?e \<le> - 1"
      using 3 by (rule exponent32_below_one)
    have "x < 2 powi (?e + 1)"
      using 3(1) by (rule exponent32_upper)
    also have split: "(2::real) powi (?e + 1) = 2 ^ 24 * ?u"
      using power_int_add [of "2::real" 24 "?e - 23"] by (simp add: add.commute)
    finally have "x / ?u < 2 ^ 24"
      using u by (simp add: pos_divide_less_eq)
    then have "x / ?u \<le> of_int (2 ^ 24)"
      by simp
    then have n: "?n \<le> 2 ^ 24"
      by (rule round_half_even_le)
    have n0: "0 \<le> ?n"
      using 3(1) u by (intro round_half_even_nonnegative) simp
    have "of_int ?n * ?u \<le> of_int (2 ^ 24) * ?u"
      using n u by (intro mult_right_mono) simp_all
    also have "\<dots> = 2 powi (?e + 1)"
      using split by simp
    also have "\<dots> \<le> 2 powi 0"
      using e by (intro power_int_increasing) simp_all
    finally have le: "of_int ?n * ?u \<le> 1"
      by simp
    have ge: "0 \<le> of_int ?n * ?u"
      using n0 u by simp
    from le have "\<not> 2 ^ 128 \<le> of_int ?n * ?u"
      by simp
    with 3(1) le ge show ?thesis
      by (simp add: round_magnitude_def Let_def)
  qed
qed

lemma round32_unit:
  assumes "0 \<le> x" and "x \<le> 1"
  shows "\<exists>y. round32 x = Finite y \<and> 0 \<le> y \<and> y \<le> 1"
  using round_magnitude_unit [OF assms] assms(1) by (simp add: round32_def)

lemma round32_finite_unit:
  assumes "\<bar>x\<bar> \<le> 1"
  shows "\<exists>y. round32 x = Finite y"
proof (cases "x < 0")
  case True
  with assms have "0 \<le> - x" "- x \<le> 1"
    by simp_all
  from round_magnitude_unit [OF this] obtain y where "round_magnitude (- x) = Finite y"
    by blast
  with True show ?thesis
    by (simp add: round32_def)
next
  case False
  with assms have "0 \<le> x" "x \<le> 1"
    by simp_all
  from round32_unit [OF this] show ?thesis
    by blast
qed

subsection \<open>Binary32 evaluations\<close>

text \<open>
  The literals of \<open>hair_diffuse\<close> as binary32 values, and three values that
  rounding leaves as they are.
\<close>

lemma round32_hair_red: "round32 (8 / 25) = Finite (5368709 / 16777216)"
  by (rule round32_normal [where e = "-2" and n = 10737418]) (simp_all add: round_half_even_def)

lemma round32_hair_green: "round32 (57 / 250) = Finite (15300821 / 67108864)"
  by (rule round32_normal [where e = "-3" and n = 15300821]) (simp_all add: round_half_even_def)

lemma round32_hair_blue: "round32 (16 / 125) = Finite (8589935 / 67108864)"
  by (rule round32_normal [where e = "-3" and n = 8589935]) (simp_all add: round_half_even_def)

lemma round32_half: "round32 (1 / 2) = Finite (1 / 2)"
  by (rule round32_normal [where e = "-1" and n = 8388608]) (simp_all add: round_half_even_def)

lemma round32_quarter: "round32 (1 / 4) = Finite (1 / 4)"
  by (rule round32_normal [where e = "-2" and n = 8388608]) (simp_all add: round_half_even_def)

lemma round32_two_to_minus_22: "round32 (1 / 4194304) = Finite (1 / 4194304)"
  by (rule round32_normal [where e = "-22" and n = 8388608]) (simp_all add: round_half_even_def)

text \<open>
  The products and the sum behind the dot product of (0.6f, 0.8f, 0) with itself.
\<close>

lemma three_fifths_squared: "fmul (Finite (5033165 / 8388608)) (Finite (5033165 / 8388608)) = Finite (3019899 / 8388608)"
  unfolding fmul.simps
  by (rule round32_normal [where e = "-2" and n = 12079596]) (simp_all add: round_half_even_def)

lemma four_fifths_squared: "fmul (Finite (13421773 / 16777216)) (Finite (13421773 / 16777216)) = Finite (10737419 / 16777216)"
  unfolding fmul.simps
  by (rule round32_normal [where e = "-1" and n = 10737419]) (simp_all add: round_half_even_def)

lemma three_four_five_sum: "fadd (Finite (3019899 / 8388608)) (Finite (10737419 / 16777216)) = Finite (1)"
  unfolding fadd.simps
  by (rule round32_normal [where e = "0" and n = 8388608]) (simp_all add: round_half_even_def)

text \<open>
  The products and sums behind the dot products of the light (3049215, 2880013, 0) / 2^22
  and the tangent (12196859, 11520053, 0) / 2^24, each with itself and with one another,
  and the square of the cosine 1 + 2^-23 that comes out.
\<close>

lemma light_light_x: "fmul (Finite (3049215 / 4194304)) (Finite (3049215 / 4194304)) = Finite (8866989 / 16777216)"
  unfolding fmul.simps
  by (rule round32_normal [where e = "-1" and n = 8866989]) (simp_all add: round_half_even_def)

lemma light_light_y: "fmul (Finite (2880013 / 4194304)) (Finite (2880013 / 4194304)) = Finite (15820455 / 33554432)"
  unfolding fmul.simps
  by (rule round32_normal [where e = "-2" and n = 15820455]) (simp_all add: round_half_even_def)

lemma light_light_sum: "fadd (Finite (8866989 / 16777216)) (Finite (15820455 / 33554432)) = Finite (1)"
  unfolding fadd.simps
  by (rule round32_normal [where e = "0" and n = 8388608]) (simp_all add: round_half_even_def)

lemma tangent_tangent_x: "fmul (Finite (12196859 / 16777216)) (Finite (12196859 / 16777216)) = Finite (2216747 / 4194304)"
  unfolding fmul.simps
  by (rule round32_normal [where e = "-1" and n = 8866988]) (simp_all add: round_half_even_def)

lemma tangent_tangent_y: "fmul (Finite (11520053 / 16777216)) (Finite (11520053 / 16777216)) = Finite (7910229 / 16777216)"
  unfolding fmul.simps
  by (rule round32_normal [where e = "-2" and n = 15820458]) (simp_all add: round_half_even_def)

lemma tangent_tangent_sum: "fadd (Finite (2216747 / 4194304)) (Finite (7910229 / 16777216)) = Finite (1)"
  unfolding fadd.simps
  by (rule round32_normal [where e = "0" and n = 8388608]) (simp_all add: round_half_even_def)

lemma light_tangent_x: "fmul (Finite (3049215 / 4194304)) (Finite (12196859 / 16777216)) = Finite (8866989 / 16777216)"
  unfolding fmul.simps
  by (rule round32_normal [where e = "-1" and n = 8866989]) (simp_all add: round_half_even_def)

lemma light_tangent_y: "fmul (Finite (2880013 / 4194304)) (Finite (11520053 / 16777216)) = Finite (15820457 / 33554432)"
  unfolding fmul.simps
  by (rule round32_normal [where e = "-2" and n = 15820457]) (simp_all add: round_half_even_def)

lemma light_tangent_sum: "fadd (Finite (8866989 / 16777216)) (Finite (15820457 / 33554432)) = Finite (8388609 / 8388608)"
  unfolding fadd.simps
  by (rule round32_normal [where e = "0" and n = 8388609]) (simp_all add: round_half_even_def)

lemma overshoot_squared: "fmul (Finite (8388609 / 8388608)) (Finite (8388609 / 8388608)) = Finite (4194305 / 4194304)"
  unfolding fmul.simps
  by (rule round32_normal [where e = "0" and n = 8388610]) (simp_all add: round_half_even_def)

section \<open>Properties of the shading model\<close>

lemma round32_minus: "0 < x \<Longrightarrow> round32 (- x) = fneg (round32 x)"
  by (simp add: round32_def)

lemma round32_not_nan: "round32 x \<noteq> NaN"
proof -
  have "round_magnitude y \<noteq> NaN \<and> fneg (round_magnitude y) \<noteq> NaN" for y
    by (simp add: round_magnitude_def Let_def)
  then show ?thesis
    by (simp add: round32_def)
qed

lemma fmul_NaN: "fmul a NaN = NaN"
  by (cases a) simp_all

lemma fadd_NaN: "fadd a NaN = NaN"
  by (cases a) simp_all

lemma fmul_one: "float_binary32 s \<Longrightarrow> fmul s (Finite 1) = s"
  by (cases s) (simp_all add: signed_inf_def is_binary32_def)

lemma fadd_zero: "float_binary32 s \<Longrightarrow> fadd (Finite 0) s = s"
  by (cases s) (simp_all add: is_binary32_def)

lemma fmul_zero: "fmul (Finite a) (Finite 0) = Finite 0"
  by (simp add: round32_zero)

lemma sin_from_cos_one: "sin_from_cos (Finite 1) = Finite 0"
  by (simp add: sin_from_cos_def fsub_def Let_def round32_one round32_zero)

lemma sin_from_cos_zero: "sin_from_cos (Finite 0) = Finite 1"
  by (simp add: sin_from_cos_def fsub_def Let_def round32_one round32_zero)

lemma fpow_one: "fpow (Finite 1) p = Finite 1"
  by (simp add: fpow_def)

lemma clamp_one: "glm_clamp (Finite 1) (Finite 0) (Finite 1) = Finite 1"
  by (simp add: glm_clamp_def glm_max_def glm_min_def)

lemma hair_diffuse_value:
  "hair_diffuse = Vec3 (Finite (5368709 / 16777216)) (Finite (15300821 / 67108864))
     (Finite (8589935 / 67108864))"
  by (simp add: hair_diffuse_def round32_hair_red round32_hair_green round32_hair_blue)

text \<open>
  The vector (0.6f, 0.8f, 0) has the dot product one with itself in binary32, and zero
  with the eye direction (0, 0, -1).
\<close>

lemma dot_three_four_five:
  "glm_dot (Vec3 (Finite (5033165 / 8388608)) (Finite (13421773 / 16777216)) (Finite 0))
     (Vec3 (Finite (5033165 / 8388608)) (Finite (13421773 / 16777216)) (Finite 0)) = Finite 1"
  by (simp only: glm_dot.simps three_fifths_squared four_fifths_squared three_four_five_sum fmul_zero) (simp add: round32_one)

lemma dot_eye:
  "glm_dot (Vec3 (Finite 0) (Finite 0) (Finite (- 1))) (Vec3 (Finite a) (Finite b) (Finite 0))
     = Finite 0"
  by (simp add: round32_zero)

text \<open>
  Claim C9. When the two cosines the code computes, of tangent and light and of tangent
  and eye, are both one (light, eye and tangent parallel), the diffuse term is zero, the
  specular term is the light intensity (the \<open>specular\<close> argument), and the returned
  colour is the light intensity, whatever the exponent. The albedo has finite
  components and the light intensity is a triple of binary32 values.
\<close>

theorem kajiya_kay_parallel:
  assumes "glm_dot light tangent = Finite 1" and "glm_dot eye tangent = Finite 1"
    and "vec3_finite diffuse" and "vec3_binary32 specular"
  shows "diffuse_colors diffuse tangent light = Vec3 (Finite 0) (Finite 0) (Finite 0)
    \<and> specular_colors specular p tangent light eye = specular
    \<and> kajiya_kay diffuse specular p tangent light eye = specular"
proof -
  from assms(3) obtain a b c where d: "diffuse = Vec3 (Finite a) (Finite b) (Finite c)"
    by (induction diffuse rule: vec3_finite.induct) simp_all
  have dc: "diffuse_colors diffuse tangent light = Vec3 (Finite 0) (Finite 0) (Finite 0)"
    by (simp add: diffuse_colors_def assms(1) sin_from_cos_one d Let_def round32_zero)
  obtain sx sy sz where s: "specular = Vec3 sx sy sz"
    by (cases specular)
  with assms(4) have b: "float_binary32 sx" "float_binary32 sy" "float_binary32 sz"
    by simp_all
  have "fadd (fmul (Finite 1) (Finite 1)) (fmul (Finite 0) (Finite 0)) = Finite 1"
    by (simp add: round32_one round32_zero)
  then have "specular_factor p tangent light eye = Finite 1"
    by (simp add: specular_factor_def assms(1,2) sin_from_cos_one fpow_one clamp_one Let_def)
  then have sc: "specular_colors specular p tangent light eye = specular"
    by (simp add: specular_colors_def s fmul_one b)
  have "vec3_add (Vec3 (Finite 0) (Finite 0) (Finite 0)) specular = specular"
    by (simp add: s fadd_zero b)
  with dc sc show ?thesis
    by (simp add: kajiya_kay_def)
qed

theorem kajiya_kay_parallel_witness:
  "glm_dot (Vec3 (Finite (5033165 / 8388608)) (Finite (13421773 / 16777216)) (Finite 0))
     (Vec3 (Finite (5033165 / 8388608)) (Finite (13421773 / 16777216)) (Finite 0)) = Finite 1
   \<and> vec3_finite hair_diffuse
   \<and> vec3_binary32 (Vec3 (Finite 1) (Finite (1 / 2)) (Finite (1 / 4)))
   \<and> kajiya_kay hair_diffuse (Vec3 (Finite 1) (Finite (1 / 2)) (Finite (1 / 4))) shininess
        (Vec3 (Finite (5033165 / 8388608)) (Finite (13421773 / 16777216)) (Finite 0))
        (Vec3 (Finite (5033165 / 8388608)) (Finite (13421773 / 16777216)) (Finite 0))
        (Vec3 (Finite (5033165 / 8388608)) (Finite (13421773 / 16777216)) (Finite 0))
     = Vec3 (Finite 1) (Finite (1 / 2)) (Finite (1 / 4))"
proof -
  note h = dot_three_four_five
  have f: "vec3_finite hair_diffuse"
    by (simp add: hair_diffuse_value)
  have b: "vec3_binary32 (Vec3 (Finite 1) (Finite (1 / 2)) (Finite (1 / 4)))"
    by (simp add: is_binary32_def round32_one round32_half round32_quarter)
  from kajiya_kay_parallel [OF h h f b] h f b show ?thesis
    by blast
qed

lemma sin_from_cos_in_range:
  assumes "\<bar>c\<bar> \<le> 1"
  shows "\<exists>s. sin_from_cos (Finite c) = Finite s \<and> 0 \<le> s \<and> s \<le> 1"
proof -
  from assms have "c * c \<le> 1"
    by (metis abs_mult_self_eq abs_ge_zero mult_le_one)
  moreover have "0 \<le> c * c"
    by simp
  ultimately obtain y where y: "round32 (c * c) = Finite y" "0 \<le> y" "y \<le> 1"
    using round32_unit by blast
  then have "0 \<le> 1 - y" "1 - y \<le> 1"
    by simp_all
  then obtain z where z: "round32 (1 - y) = Finite z" "0 \<le> z" "z \<le> 1"
    using round32_unit by blast
  then have "0 \<le> sqrt z" "sqrt z \<le> 1"
    by simp_all
  then obtain s where s: "round32 (sqrt z) = Finite s" "0 \<le> s" "s \<le> 1"
    using round32_unit by blast
  have "sin_from_cos (Finite c) = Finite s"
    using y z s by (simp add: sin_from_cos_def fsub_def Let_def)
  with s show ?thesis
    by blast
qed

lemma sin_from_cos_negative:
  assumes "fsub (Finite 1) (fmul cosT cosT) = Finite m" and "m < 0"
  shows "sin_from_cos cosT = NaN"
  using assms by (simp add: sin_from_cos_def Let_def)

lemma fpow_shininess:
  assumes "a \<noteq> NaN"
  shows "not_negative_not_nan (fpow a shininess)"
proof -
  have i: "integral 50" and o: "\<not> odd_integral 50"
    by (simp_all add: integral_def odd_integral_def)
  show ?thesis
  proof (cases a)
    case (Finite r)
    have "not_negative_not_nan (round32 (r powr 50))"
      "not_negative_not_nan (round32 (\<bar>r\<bar> powr 50))"
      by (rule round32_nonnegative, simp)+
    with Finite show ?thesis
      by (simp add: fpow_def shininess_def i o)
  qed (use assms in \<open>simp_all add: fpow_def shininess_def o\<close>)
qed

lemma glm_clamp_unit:
  "glm_clamp v (Finite 0) (Finite 1) = NaN
   \<or> (\<exists>f. glm_clamp v (Finite 0) (Finite 1) = Finite f \<and> 0 \<le> f \<and> f \<le> 1)"
  by (cases v) (auto simp: glm_clamp_def glm_max_def glm_min_def)

lemma glm_clamp_not_negative:
  assumes "not_negative_not_nan v"
  shows "\<exists>f. glm_clamp v (Finite 0) (Finite 1) = Finite f \<and> 0 \<le> f \<and> f \<le> 1"
  using assms by (cases v) (auto simp: glm_clamp_def glm_max_def glm_min_def)

lemma fadd_not_negative:
  assumes "not_negative_not_nan u" and "not_negative_not_nan v"
  shows "not_negative_not_nan (fadd u v)"
proof (cases u)
  case (Finite a)
  with assms show ?thesis
    by (cases v) (simp_all add: round32_nonnegative)
next
  case PlusInf
  with assms show ?thesis
    by (cases v) simp_all
qed (use assms in simp_all)

lemma scale_not_negative:
  assumes "vec3_nonnegative v" and "0 \<le> s"
  shows "vec3_not_negative_not_nan (vec3_scale v (Finite s))"
  using assms
  by (induction v rule: vec3_nonnegative.induct) (simp_all add: round32_nonnegative)

lemma add_not_negative:
  assumes "vec3_not_negative_not_nan u" and "vec3_not_negative_not_nan v"
  shows "vec3_not_negative_not_nan (vec3_add u v)"
  using assms by (cases u; cases v) (simp add: fadd_not_negative)

text \<open>
  Claim C8, as the code has it. The specular factor is what \<open>glm::clamp\<close> returns, so it
  lies in [0,1] unless it is NaN. The values passed to the square roots are not clamped:
  when one minus the squared cosine comes out negative, the sine is NaN. When the two
  cosines the code computes are finite and lie in [-1,1], the exponent is the shininess
  50 and the diffuse and specular colours have finite, non-negative components, the
  specular factor is a number in [0,1] and no component of the returned colour is
  negative or NaN (it is a non-negative number or, on overflow, plus infinity).
\<close>

theorem kajiya_kay_bounded:
  assumes "glm_dot light tangent = Finite cosTL" and "\<bar>cosTL\<bar> \<le> 1"
    and "glm_dot eye tangent = Finite cosTE" and "\<bar>cosTE\<bar> \<le> 1"
    and "vec3_nonnegative diffuse" and "vec3_nonnegative specular"
  shows "(\<exists>f. specular_factor shininess tangent light eye = Finite f \<and> 0 \<le> f \<and> f \<le> 1)
    \<and> vec3_not_negative_not_nan (kajiya_kay diffuse specular shininess tangent light eye)
    \<and> (specular_factor p' tangent' light' eye' = NaN
        \<or> (\<exists>f. specular_factor p' tangent' light' eye' = Finite f \<and> 0 \<le> f \<and> f \<le> 1))
    \<and> (fsub (Finite 1) (fmul cosT cosT) = Finite m \<and> m < 0 \<longrightarrow> sin_from_cos cosT = NaN)"
proof -
  obtain sTL where sl: "sin_from_cos (Finite cosTL) = Finite sTL" "0 \<le> sTL"
    using sin_from_cos_in_range [OF assms(2)] by blast
  obtain sTE where se: "sin_from_cos (Finite cosTE) = Finite sTE"
    using sin_from_cos_in_range [OF assms(4)] by blast
  have "fadd (fmul (Finite cosTL) (Finite cosTE)) (fmul (Finite sTL) (Finite sTE)) \<noteq> NaN"
  proof -
    obtain a where a: "round32 (cosTL * cosTE) = Finite a"
      using round32_finite_unit [of "cosTL * cosTE"] assms(2,4)
      by (auto simp: abs_mult mult_le_one)
    have "round32 (sTL * sTE) \<noteq> NaN"
      by (rule round32_not_nan)
    then show ?thesis
      using a by (cases "round32 (sTL * sTE)") (simp_all add: round32_not_nan)
  qed
  then have "not_negative_not_nan
      (fpow (fadd (fmul (Finite cosTL) (Finite cosTE)) (fmul (Finite sTL) (Finite sTE))) shininess)"
    by (rule fpow_shininess)
  then obtain f where f: "glm_clamp
      (fpow (fadd (fmul (Finite cosTL) (Finite cosTE)) (fmul (Finite sTL) (Finite sTE))) shininess)
      (Finite 0) (Finite 1) = Finite f" "0 \<le> f" "f \<le> 1"
    using glm_clamp_not_negative by blast
  have sf: "specular_factor shininess tangent light eye = Finite f"
    unfolding specular_factor_def Let_def assms(1,3) sl(1) se by (rule f(1))
  have d: "vec3_not_negative_not_nan (diffuse_colors diffuse tangent light)"
    unfolding diffuse_colors_def Let_def assms(1) sl(1)
    using assms(5) sl(2) by (rule scale_not_negative)
  have s: "vec3_not_negative_not_nan (specular_colors specular shininess tangent light eye)"
    unfolding specular_colors_def sf
    using assms(6) f(2) by (rule scale_not_negative)
  have k: "vec3_not_negative_not_nan (kajiya_kay diffuse specular shininess tangent light eye)"
    unfolding kajiya_kay_def using d s by (rule add_not_negative)
  have c: "specular_factor p' tangent' light' eye' = NaN
        \<or> (\<exists>f. specular_factor p' tangent' light' eye' = Finite f \<and> 0 \<le> f \<and> f \<le> 1)"
    unfolding specular_factor_def Let_def by (rule glm_clamp_unit)
  from sf f k c sin_from_cos_negative show ?thesis
    by blast
qed

lemma one_minus_overshoot:
  "fsub (Finite 1) (fmul (Finite (8388609 / 8388608)) (Finite (8388609 / 8388608)))
     = Finite (- (1 / 4194304))"
proof -
  have "round32 (- (1 / 4194304)) = fneg (round32 (1 / 4194304))"
    by (rule round32_minus) simp
  then have r: "round32 (- (1 / 4194304)) = Finite (- (1 / 4194304))"
    by (simp add: round32_two_to_minus_22)
  have a: "1 + - (4194305 / 4194304) = - (1 / (4194304::real))"
    by simp
  show ?thesis
    by (simp only: overshoot_squared fsub_def fneg.simps fadd.simps a r)
qed

theorem kajiya_kay_bounded_witness:
  "glm_dot (Vec3 (Finite (5033165 / 8388608)) (Finite (13421773 / 16777216)) (Finite 0))
     (Vec3 (Finite (5033165 / 8388608)) (Finite (13421773 / 16777216)) (Finite 0)) = Finite 1
   \<and> glm_dot (Vec3 (Finite 0) (Finite 0) (Finite (- 1)))
     (Vec3 (Finite (5033165 / 8388608)) (Finite (13421773 / 16777216)) (Finite 0)) = Finite 0
   \<and> vec3_nonnegative hair_diffuse
   \<and> (\<exists>f. specular_factor shininess
          (Vec3 (Finite (5033165 / 8388608)) (Finite (13421773 / 16777216)) (Finite 0))
          (Vec3 (Finite (5033165 / 8388608)) (Finite (13421773 / 16777216)) (Finite 0))
          (Vec3 (Finite 0) (Finite 0) (Finite (- 1))) = Finite f \<and> 0 \<le> f \<and> f \<le> 1)
   \<and> vec3_not_negative_not_nan (kajiya_kay hair_diffuse (Vec3 (Finite 1) (Finite 1) (Finite 1))
        shininess
        (Vec3 (Finite (5033165 / 8388608)) (Finite (13421773 / 16777216)) (Finite 0))
        (Vec3 (Finite (5033165 / 8388608)) (Finite (13421773 / 16777216)) (Finite 0))
        (Vec3 (Finite 0) (Finite 0) (Finite (- 1))))
   \<and> sin_from_cos (Finite (8388609 / 8388608)) = NaN"
proof -
  note h1 = dot_three_four_five
  note h2 = dot_eye [of "5033165 / 8388608" "13421773 / 16777216"]
  have r1: "\<bar>1::real\<bar> \<le> 1" and r2: "\<bar>0::real\<bar> \<le> 1" and r3: "- (1 / 4194304) < (0::real)"
    by simp_all
  have d: "vec3_nonnegative hair_diffuse"
    by (simp add: hair_diffuse_value)
  have s: "vec3_nonnegative (Vec3 (Finite 1) (Finite 1) (Finite 1))"
    by simp
  from kajiya_kay_bounded [OF h1 r1 h2 r2 d s, of _ _ _ _ "Finite (8388609 / 8388608)"
      "- (1 / 4194304)"] h1 h2 d r3 one_minus_overshoot
  show ?thesis
    by blast
qed

text \<open>
  Claim C8 as stated fails through rounding. The light (3049215, 2880013, 0) / 2^22 and
  the tangent (12196859, 11520053, 0) / 2^24 are binary32 vectors whose squared length
  the code computes as exactly one, and so is the eye direction (0, 0, -1); the colours
  are not negative and the exponent is 50. The computed cosine of tangent and light
  is 1 + 2^-23, one minus its square is negative, the square root is taken of it as it
  is, and every component of the returned colour is NaN.
\<close>

theorem kajiya_kay_overshoot_counterexample:
  "glm_dot (Vec3 (Finite (3049215 / 4194304)) (Finite (2880013 / 4194304)) (Finite 0))
     (Vec3 (Finite (3049215 / 4194304)) (Finite (2880013 / 4194304)) (Finite 0)) = Finite 1
   \<and> glm_dot (Vec3 (Finite (12196859 / 16777216)) (Finite (11520053 / 16777216)) (Finite 0))
     (Vec3 (Finite (12196859 / 16777216)) (Finite (11520053 / 16777216)) (Finite 0)) = Finite 1
   \<and> glm_dot (Vec3 (Finite 0) (Finite 0) (Finite (- 1))) (Vec3 (Finite 0) (Finite 0) (Finite (- 1)))
     = Finite 1
   \<and> vec3_nonnegative hair_diffuse
   \<and> glm_dot (Vec3 (Finite (3049215 / 4194304)) (Finite (2880013 / 4194304)) (Finite 0))
     (Vec3 (Finite (12196859 / 16777216)) (Finite (11520053 / 16777216)) (Finite 0))
     = Finite (8388609 / 8388608)
   \<and> kajiya_kay hair_diffuse (Vec3 (Finite 1) (Finite 1) (Finite 1)) shininess
        (Vec3 (Finite (12196859 / 16777216)) (Finite (11520053 / 16777216)) (Finite 0))
        (Vec3 (Finite (3049215 / 4194304)) (Finite (2880013 / 4194304)) (Finite 0))
        (Vec3 (Finite 0) (Finite 0) (Finite (- 1)))
     = Vec3 NaN NaN NaN"
proof -
  let ?l = "Vec3 (Finite (3049215 / 4194304)) (Finite (2880013 / 4194304)) (Finite 0)"
  let ?t = "Vec3 (Finite (12196859 / 16777216)) (Finite (11520053 / 16777216)) (Finite 0)"
  let ?e = "Vec3 (Finite 0) (Finite 0) (Finite (- 1))"
  have ll: "glm_dot ?l ?l = Finite 1"
    by (simp only: glm_dot.simps light_light_x light_light_y light_light_sum fmul_zero) (simp add: round32_one)
  have tt: "glm_dot ?t ?t = Finite 1"
    by (simp only: glm_dot.simps tangent_tangent_x tangent_tangent_y tangent_tangent_sum fmul_zero) (simp add: round32_one)
  have ee: "glm_dot ?e ?e = Finite 1"
    by (simp add: round32_zero round32_one)
  have lt: "glm_dot ?l ?t = Finite (8388609 / 8388608)"
  proof -
    have "fadd (Finite (8388609 / 8388608)) (Finite 0) = Finite (8388609 / 8388608)"
      unfolding fadd.simps
      by (rule round32_normal [where e = 0 and n = 8388609])
         (simp_all add: round_half_even_def)
    then show ?thesis
      by (simp only: glm_dot.simps light_tangent_x light_tangent_y light_tangent_sum fmul_zero)
  qed
  have et: "glm_dot ?e ?t = Finite 0"
    by (rule dot_eye)
  have d: "vec3_nonnegative hair_diffuse"
    by (simp add: hair_diffuse_value)
  have sn: "sin_from_cos (Finite (8388609 / 8388608)) = NaN"
    using one_minus_overshoot by (rule sin_from_cos_negative) simp
  have dc: "diffuse_colors hair_diffuse ?t ?l = Vec3 NaN NaN NaN"
    by (simp add: diffuse_colors_def lt sn hair_diffuse_value fmul_NaN Let_def
        del: glm_dot.simps)
  have sf: "specular_factor shininess ?t ?l ?e = NaN"
    by (simp add: specular_factor_def lt et sn fmul_NaN fadd_NaN fpow_def shininess_def
        glm_clamp_def glm_max_def glm_min_def Let_def del: glm_dot.simps)
  have sc: "specular_colors (Vec3 (Finite 1) (Finite 1) (Finite 1)) shininess ?t ?l ?e
      = Vec3 NaN NaN NaN"
    by (simp add: specular_colors_def sf)
  have k: "kajiya_kay hair_diffuse (Vec3 (Finite 1) (Finite 1) (Finite 1)) shininess ?t ?l ?e
      = Vec3 NaN NaN NaN"
    by (simp add: kajiya_kay_def dc sc)
  from ll tt ee d lt k show ?thesis
    by blast
qed


end
